theory Spec2Isabelle
  imports Main "HOL-Library.Sublist"
begin

section \<open>JSON documents\<close>

text \<open>
  The schema, layout and request documents of the dashboard are free-form JSON
  (\<^verbatim>\<open>unknown\<close> in the TypeScript). An object is an association list of its
  own properties in insertion order; a property read takes the first binding of the
  name. Numbers are kept as integers: no function of the model computes with them.
\<close>

datatype json =
    JNull
  | JBool bool
  | JNum int
  | JStr string
  | JArr "json list"
  | JObj "(string \<times> json) list"

text \<open>JavaScript's truthiness of a JSON value (\<^verbatim>\<open>!x\<close> is its negation).\<close>

fun truthy :: "json \<Rightarrow> bool" where
  "truthy JNull = False"
| "truthy (JBool b) = b"
| "truthy (JNum n) = (n \<noteq> 0)"
| "truthy (JStr s) = (s \<noteq> [])"
| "truthy (JArr xs) = True"
| "truthy (JObj kvs) = True"

text \<open>\<^verbatim>\<open>typeof x === "object"\<close>: objects, arrays and \<^verbatim>\<open>null\<close>.\<close>

fun typeof_object :: "json \<Rightarrow> bool" where
  "typeof_object JNull = True"
| "typeof_object (JArr xs) = True"
| "typeof_object (JObj kvs) = True"
| "typeof_object v = False"

text \<open>
  A property read \<^verbatim>\<open>record.k\<close> on a truthy value of type object; \<open>None\<close> is
  \<^verbatim>\<open>undefined\<close>. None of the names read by the serializer (\<^verbatim>\<open>fields\<close>,
  \<^verbatim>\<open>key\<close>, \<^verbatim>\<open>column\<close>, \<^verbatim>\<open>name\<close>, \<^verbatim>\<open>label\<close>, \<^verbatim>\<open>type\<close>,
  \<^verbatim>\<open>dataType\<close>, \<^verbatim>\<open>required\<close>, \<^verbatim>\<open>description\<close>) is a property of an
  array, so an array answers \<^verbatim>\<open>undefined\<close>.
\<close>

fun get_prop :: "json \<Rightarrow> string \<Rightarrow> json option" where
  "get_prop (JObj kvs) k = map_of kvs k"
| "get_prop v k = None"

section \<open>Domain field extraction (\<^verbatim>\<open>toDomainFields\<close>)\<close>

text \<open>\<^verbatim>\<open>description?: string | null\<close>: a string, an explicit null, or undefined.\<close>

datatype description_value = DescUndefined | DescNull | DescString string

record DomainField =
  df_key :: string
  df_name :: string
  df_type :: "string option"
  df_required :: "bool option"
  df_description :: description_value

text \<open>
  \<^verbatim>\<open>typeof v === "string"\<close> and \<^verbatim>\<open>typeof v === "boolean"\<close> on the result of a
  property read, and the value read under that guard.
\<close>

fun typeof_string :: "json option \<Rightarrow> bool" where
  "typeof_string (Some (JStr s)) = True"
| "typeof_string v = False"

fun typeof_boolean :: "json option \<Rightarrow> bool" where
  "typeof_boolean (Some (JBool b)) = True"
| "typeof_boolean v = False"

fun as_string :: "json option \<Rightarrow> string" where
  "as_string (Some (JStr s)) = s"
| "as_string v = []"

fun as_boolean :: "json option \<Rightarrow> bool" where
  "as_boolean (Some (JBool b)) = b"
| "as_boolean v = False"

text \<open>The callback of \<^verbatim>\<open>fields.map\<close>; \<open>None\<close> is its \<^verbatim>\<open>null\<close>.\<close>

definition toDomainField :: "json \<Rightarrow> DomainField option" where
  "toDomainField item =
     (if \<not> truthy item \<or> \<not> typeof_object item then None
      else
        let key = (if typeof_string (get_prop item ''key'')
                   then as_string (get_prop item ''key'')
                   else if typeof_string (get_prop item ''column'')
                        then as_string (get_prop item ''column'')
                        else []);
            name = (if typeof_string (get_prop item ''name'')
                    then as_string (get_prop item ''name'')
                    else if typeof_string (get_prop item ''label'')
                         then as_string (get_prop item ''label'')
                         else [])
        in
          if key = [] \<or> name = [] then None
          else
            let type = (if typeof_string (get_prop item ''type'')
                        then Some (as_string (get_prop item ''type''))
                        else if typeof_string (get_prop item ''dataType'')
                             then Some (as_string (get_prop item ''dataType''))
                             else None);
                required = (if typeof_boolean (get_prop item ''required'')
                            then Some (as_boolean (get_prop item ''required''))
                            else None);
                description = (if typeof_string (get_prop item ''description'')
                               then DescString (as_string (get_prop item ''description''))
                               else if get_prop item ''description'' = Some JNull
                                    then DescNull
                                    else DescUndefined)
            in Some \<lparr> df_key = key, df_name = name, df_type = type,
                      df_required = required, df_description = description \<rparr>)"

definition toDomainFields :: "json \<Rightarrow> DomainField list" where
  "toDomainFields schema =
     (if \<not> truthy schema \<or> \<not> typeof_object schema then []
      else
        (case get_prop schema ''fields'' of
           Some (JArr items) \<Rightarrow>
             map the (filter (\<lambda>field. field \<noteq> None) (map toDomainField items))
         | _ \<Rightarrow> []))"

subsection \<open>The extraction as the specification words it\<close>

text \<open>
  The specification's field-extraction algorithm, written from its sentences and
  independently of the code above: the identifier is \<^verbatim>\<open>key\<close> or else the legacy
  \<^verbatim>\<open>column\<close>, the display name is \<^verbatim>\<open>name\<close> or else the legacy \<^verbatim>\<open>label\<close>;
  an entry whose resolved identifier or display name is missing is dropped;
  \<^verbatim>\<open>type\<close> (or \<^verbatim>\<open>dataType\<close>), \<^verbatim>\<open>required\<close> and \<^verbatim>\<open>description\<close> pass
  through.
\<close>

definition string_prop :: "json \<Rightarrow> string \<Rightarrow> string option" where
  "string_prop item k = (case get_prop item k of Some (JStr s) \<Rightarrow> Some s | _ \<Rightarrow> None)"

definition either_prop :: "json \<Rightarrow> string \<Rightarrow> string \<Rightarrow> string option" where
  "either_prop item k legacy =
     (case string_prop item k of Some s \<Rightarrow> Some s | None \<Rightarrow> string_prop item legacy)"

definition missing :: "string option \<Rightarrow> bool" where
  "missing v = (case v of None \<Rightarrow> True | Some s \<Rightarrow> s = [])"

definition spec_required :: "json \<Rightarrow> bool option" where
  "spec_required item = (case get_prop item ''required'' of Some (JBool b) \<Rightarrow> Some b | _ \<Rightarrow> None)"

definition spec_description :: "json \<Rightarrow> description_value" where
  "spec_description item =
     (case get_prop item ''description'' of
        Some (JStr s) \<Rightarrow> DescString s
      | Some JNull \<Rightarrow> DescNull
      | _ \<Rightarrow> DescUndefined)"

fun spec_extract :: "json list \<Rightarrow> DomainField list" where
  "spec_extract [] = []"
| "spec_extract (item # items) =
     (if missing (either_prop item ''key'' ''column'')
         \<or> missing (either_prop item ''name'' ''label'')
      then spec_extract items
      else \<lparr> df_key = the (either_prop item ''key'' ''column''),
             df_name = the (either_prop item ''name'' ''label''),
             df_type = either_prop item ''type'' ''dataType'',
             df_required = spec_required item,
             df_description = spec_description item \<rparr> # spec_extract items)"

definition spec_toDomainFields :: "json \<Rightarrow> DomainField list" where
  "spec_toDomainFields schema =
     (case schema of
        JObj kvs \<Rightarrow> (case map_of kvs ''fields'' of
                       Some (JArr items) \<Rightarrow> spec_extract items
                     | _ \<Rightarrow> [])
      | _ \<Rightarrow> [])"

text \<open>
  The JSON rendering of an extracted field (\<^verbatim>\<open>JSON.stringify\<close> of the object the
  callback returns): a property whose value is \<^verbatim>\<open>undefined\<close> is left out.
\<close>

definition DomainField_json :: "DomainField \<Rightarrow> json" where
  "DomainField_json f =
     JObj ([(''key'', JStr (df_key f)), (''name'', JStr (df_name f))]
           @ (case df_type f of None \<Rightarrow> [] | Some t \<Rightarrow> [(''type'', JStr t)])
           @ (case df_required f of None \<Rightarrow> [] | Some b \<Rightarrow> [(''required'', JBool b)])
           @ (case df_description f of
                DescUndefined \<Rightarrow> []
              | DescNull \<Rightarrow> [(''description'', JNull)]
              | DescString s \<Rightarrow> [(''description'', JStr s)]))"

definition DomainSchema_json :: "DomainField list \<Rightarrow> json" where
  "DomainSchema_json fs = JObj [(''fields'', JArr (map DomainField_json fs))]"

section \<open>Persisted rows and loaded relations\<close>

text \<open>
  The rows of the store as the ORM client returns them. A nullable column is an option,
  a JSON column holds \<open>JNull\<close> when it is null. A \<^verbatim>\<open>Date\<close> is the instant it denotes
  (milliseconds since the epoch); \<^verbatim>\<open>toISOString()\<close> renders that instant and the
  documents below carry the instant it renders.
\<close>

type_synonym date = int

datatype operation_type = CREATE | READ | UPDATE | DELETE | CUSTOM

record StorageModelRow =
  mr_id :: string
  mr_name :: string
  mr_description :: "string option"
  mr_database :: string
  mr_connection :: "string option"
  mr_schema :: json
  mr_createdAt :: date
  mr_updatedAt :: date

record StorageTableRow =
  tr_id :: string
  tr_name :: string
  tr_description :: "string option"
  tr_schema :: json
  tr_storageModelId :: string
  tr_createdAt :: date
  tr_updatedAt :: date

record ViewRow =
  vr_id :: string
  vr_name :: string
  vr_description :: "string option"
  vr_layout :: json
  vr_storageModelId :: string
  vr_storageTableId :: string
  vr_createdAt :: date
  vr_updatedAt :: date

record FormRow =
  fr_id :: string
  fr_name :: string
  fr_description :: "string option"
  fr_schema :: json
  fr_storageTableId :: string
  fr_createdAt :: date
  fr_updatedAt :: date

record OperationRow =
  or_id :: string
  or_name :: string
  or_description :: "string option"
  or_type :: operation_type
  or_endpoint :: "string option"
  or_method :: "string option"
  or_storageModelId :: "string option"
  or_formModelId :: "string option"
  or_requestSchema :: json
  or_responseSchema :: json
  or_createdAt :: date
  or_updatedAt :: date

text \<open>
  A domain row together with the rows of its four join tables: the ids of the storage
  tables, views, forms and operations linked to it, in creation order.
\<close>

record DomainRow =
  dr_id :: string
  dr_name :: string
  dr_description :: "string option"
  dr_schema :: json
  dr_createdAt :: date
  dr_updatedAt :: date
  dr_storageTableIds :: "string list"
  dr_viewModelIds :: "string list"
  dr_formModelIds :: "string list"
  dr_operationModelIds :: "string list"

text \<open>
  An optional relation of a loaded row: the property is not in the object (the query did
  not include it), it is \<^verbatim>\<open>null\<close>, or it holds the related row. These are the three
  cases that \<^verbatim>\<open>"storageTable" in model && model.storageTable\<close> tells apart.
\<close>

datatype 'a relation = NotIncluded | IsNull | Loaded 'a

text \<open>
  The arguments of the serializer (the \<^verbatim>\<open>...WithRelations\<close> payloads and the
  elements of their nested arrays): a row and its relations. The \<^verbatim>\<open>storageModel\<close>
  relation of views and operations is loaded by the queries and never read by the
  serializer; it is left out. An element of a join array of a domain
  (\<^verbatim>\<open>item.storageTable\<close>, \<^verbatim>\<open>item.viewModel\<close>, ...) is represented by its target.
\<close>

record OperationPayload =
  op_row :: OperationRow
  op_formModel :: "FormRow relation"

record FormPayload =
  fp_row :: FormRow
  fp_operations :: "OperationPayload list option"
  fp_storageTable :: "StorageTableRow relation"

record ViewPayload =
  vp_row :: ViewRow
  vp_storageTable :: "StorageTableRow relation"

record StorageTablePayload =
  tp_row :: StorageTableRow
  tp_forms :: "FormPayload list"
  tp_views :: "ViewPayload list"

record StorageModelPayload =
  sp_row :: StorageModelRow
  sp_tables :: "StorageTablePayload list"
  sp_operations :: "OperationPayload list"
  sp_views :: "ViewPayload list"

record DomainPayload =
  dp_row :: DomainRow
  dp_storageTables :: "StorageTablePayload list"
  dp_viewModels :: "ViewPayload list"
  dp_formModels :: "FormPayload list"
  dp_operationModels :: "OperationPayload list"

section \<open>Client documents (\<^verbatim>\<open>types/models\<close>)\<close>

text \<open>
  The documents refer to each other (a table lists forms and views, a form or a view
  may carry its table, an operation may carry its form), so they are one family of
  datatypes. An optional property is an option: \<open>None\<close> is an omitted property.
\<close>

datatype OperationModel = OperationModel
    (om_id: string) (om_name: string) (om_description: "string option")
    (om_type: operation_type) (om_endpoint: "string option") (om_method: "string option")
    (om_storageModelId: "string option") (om_formModelId: "string option")
    (om_requestSchema: json) (om_responseSchema: json)
    (om_createdAt: date) (om_updatedAt: date)
    (om_formModel: "FormModel option")
and FormModel = FormModel
    (fm_id: string) (fm_name: string) (fm_description: "string option")
    (fm_schema: json) (fm_storageTableId: string)
    (fm_createdAt: date) (fm_updatedAt: date)
    (fm_operations: "OperationModel list option")
    (fm_storageTable: "StorageTable option")
and StorageTable = StorageTable
    (st_id: string) (st_name: string) (st_description: "string option")
    (st_schema: json) (st_storageModelId: string)
    (st_createdAt: date) (st_updatedAt: date)
    (st_forms: "FormModel list") (st_views: "ViewModel list")
and ViewModel = ViewModel
    (vm_id: string) (vm_name: string) (vm_description: "string option")
    (vm_layout: json) (vm_storageModelId: string) (vm_storageTableId: string)
    (vm_createdAt: date) (vm_updatedAt: date)
    (vm_storageTable: "StorageTable option")

record StorageModel =
  sm_id :: string
  sm_name :: string
  sm_description :: "string option"
  sm_database :: string
  sm_connection :: "string option"
  sm_schema :: json
  sm_createdAt :: date
  sm_updatedAt :: date
  sm_tables :: "StorageTable list"
  sm_operations :: "OperationModel list"
  sm_views :: "ViewModel list"

record DomainSchema =
  ds_fields :: "DomainField list"

record DomainModel =
  dm_id :: string
  dm_name :: string
  dm_description :: "string option"
  dm_schema :: "DomainSchema option"
  dm_fields :: "DomainField list"
  dm_storageTables :: "StorageTable list"
  dm_viewModels :: "ViewModel list"
  dm_formModels :: "FormModel list"
  dm_operationModels :: "OperationModel list"
  dm_createdAt :: date
  dm_updatedAt :: date

record DashboardData =
  dd_storageModels :: "StorageModel list"
  dd_viewModels :: "ViewModel list"
  dd_formModels :: "FormModel list"
  dd_operationModels :: "OperationModel list"
  dd_domainModels :: "DomainModel list"

section \<open>The relational serializer\<close>

text \<open>
  Each function takes the loaded row and, where the source has an options object, the
  flag of that object (\<^verbatim>\<open>includeForm\<close>, \<^verbatim>\<open>includeOperations\<close>; an absent flag is
  \<open>False\<close>).
\<close>

definition toOperationModel :: "OperationPayload \<Rightarrow> bool \<Rightarrow> OperationModel" where
  "toOperationModel model includeForm =
     (let r = op_row model in
      OperationModel (or_id r) (or_name r) (or_description r) (or_type r)
        (or_endpoint r) (or_method r) (or_storageModelId r) (or_formModelId r)
        (or_requestSchema r) (or_responseSchema r) (or_createdAt r) (or_updatedAt r)
        (if includeForm then
           (case op_formModel model of
              Loaded f \<Rightarrow>
                Some (FormModel (fr_id f) (fr_name f) (fr_description f) (fr_schema f)
                        (fr_storageTableId f) (fr_createdAt f) (fr_updatedAt f) None None)
            | _ \<Rightarrow> None)
         else None))"

text \<open>
  The \<^verbatim>\<open>storageTable\<close> back-reference written by \<^verbatim>\<open>toFormModel\<close> and
  \<^verbatim>\<open>toViewModel\<close>: the columns of the table row, and the literal empty arrays for
  \<^verbatim>\<open>forms\<close> and \<^verbatim>\<open>views\<close>.
\<close>

definition storageTable_backref :: "StorageTableRow \<Rightarrow> StorageTable" where
  "storageTable_backref t =
     StorageTable (tr_id t) (tr_name t) (tr_description t) (tr_schema t)
       (tr_storageModelId t) (tr_createdAt t) (tr_updatedAt t) [] []"

definition toFormModel :: "FormPayload \<Rightarrow> bool \<Rightarrow> FormModel" where
  "toFormModel model includeOperations =
     (let r = fp_row model in
      FormModel (fr_id r) (fr_name r) (fr_description r) (fr_schema r)
        (fr_storageTableId r) (fr_createdAt r) (fr_updatedAt r)
        (if includeOperations then
           (case fp_operations model of
              Some operations \<Rightarrow>
                Some (map (\<lambda>operation. toOperationModel operation False) operations)
            | None \<Rightarrow> None)
         else None)
        (case fp_storageTable model of
           Loaded t \<Rightarrow> Some (storageTable_backref t)
         | _ \<Rightarrow> None))"

definition toViewModel :: "ViewPayload \<Rightarrow> ViewModel" where
  "toViewModel model =
     (let r = vp_row model in
      ViewModel (vr_id r) (vr_name r) (vr_description r) (vr_layout r)
        (vr_storageModelId r) (vr_storageTableId r) (vr_createdAt r) (vr_updatedAt r)
        (case vp_storageTable model of
           Loaded t \<Rightarrow> Some (storageTable_backref t)
         | _ \<Rightarrow> None))"

definition toStorageTable :: "StorageTablePayload \<Rightarrow> StorageTable" where
  "toStorageTable table =
     (let r = tp_row table in
      StorageTable (tr_id r) (tr_name r) (tr_description r) (tr_schema r)
        (tr_storageModelId r) (tr_createdAt r) (tr_updatedAt r)
        (map (\<lambda>form. toFormModel form True) (tp_forms table))
        (map toViewModel (tp_views table)))"

definition toStorageModel :: "StorageModelPayload \<Rightarrow> StorageModel" where
  "toStorageModel model =
     (let r = sp_row model in
      \<lparr> sm_id = mr_id r, sm_name = mr_name r, sm_description = mr_description r,
        sm_database = mr_database r, sm_connection = mr_connection r,
        sm_schema = mr_schema r, sm_createdAt = mr_createdAt r,
        sm_updatedAt = mr_updatedAt r,
        sm_tables = map toStorageTable (sp_tables model),
        sm_operations = map (\<lambda>operation. toOperationModel operation False)
                          (sp_operations model),
        sm_views = map toViewModel (sp_views model) \<rparr>)"

text \<open>
  The serializer in its version with domain models: \<^verbatim>\<open>toDomainModel\<close>, and
  \<^verbatim>\<open>serializeDashboardData\<close> with a fifth list.
\<close>

definition toDomainModel :: "DomainPayload \<Rightarrow> DomainModel" where
  "toDomainModel model =
     (let r = dp_row model;
          fields = toDomainFields (dr_schema r);
          schema = (if truthy (dr_schema r) then Some \<lparr> ds_fields = fields \<rparr> else None)
      in
      \<lparr> dm_id = dr_id r, dm_name = dr_name r, dm_description = dr_description r,
        dm_schema = schema, dm_fields = fields,
        dm_storageTables = map toStorageTable (dp_storageTables model),
        dm_viewModels = map toViewModel (dp_viewModels model),
        dm_formModels = map (\<lambda>form. toFormModel form True) (dp_formModels model),
        dm_operationModels = map (\<lambda>operation. toOperationModel operation True)
                               (dp_operationModels model),
        dm_createdAt = dr_createdAt r, dm_updatedAt = dr_updatedAt r \<rparr>)"

definition serializeDashboardData ::
  "StorageModelPayload list \<Rightarrow> ViewPayload list \<Rightarrow> FormPayload list
     \<Rightarrow> OperationPayload list \<Rightarrow> DomainPayload list \<Rightarrow> DashboardData" where
  "serializeDashboardData storageModels viewModels formModels operationModels domainModels =
     \<lparr> dd_storageModels = map toStorageModel storageModels,
       dd_viewModels = map toViewModel viewModels,
       dd_formModels = map (\<lambda>model. toFormModel model True) formModels,
       dd_operationModels = map (\<lambda>operation. toOperationModel operation True)
                              operationModels,
       dd_domainModels = map toDomainModel domainModels \<rparr>"

text \<open>
  \<^verbatim>\<open>serializeDashboardData\<close> as \<^verbatim>\<open>lib/serializers.ts\<close> has it, with four lists
  and no domain models. This is the module at the path from which every route imports
  the function (\<^verbatim>\<open>@/lib/serializers\<close>). It reads the four lists of its argument and
  nothing else, and the object it returns has four properties: reading
  \<^verbatim>\<open>domainModels\<close> from that object gives \<^verbatim>\<open>undefined\<close>.
\<close>

record DashboardData_lib =
  ddl_storageModels :: "StorageModel list"
  ddl_viewModels :: "ViewModel list"
  ddl_formModels :: "FormModel list"
  ddl_operationModels :: "OperationModel list"

definition serializeDashboardData_lib ::
  "StorageModelPayload list \<Rightarrow> ViewPayload list \<Rightarrow> FormPayload list
     \<Rightarrow> OperationPayload list \<Rightarrow> DashboardData_lib" where
  "serializeDashboardData_lib storageModels viewModels formModels operationModels =
     \<lparr> ddl_storageModels = map toStorageModel storageModels,
       ddl_viewModels = map toViewModel viewModels,
       ddl_formModels = map (\<lambda>model. toFormModel model True) formModels,
       ddl_operationModels = map (\<lambda>operation. toOperationModel operation True)
                               operationModels \<rparr>"


section \<open>The persistent store\<close>

text \<open>
  Modelled from the spec: the ORM client (\<^verbatim>\<open>lib/prisma\<close>) and its schema are not
  among the sources. The specification describes a relational store with
  server-generated identifiers and creation timestamps, which rejects a write whose
  referenced foreign id does not exist, writes an entity and its links entirely or not
  at all, and reads an entity back together with its declared relations. The store is a
  record of tables; a new row is put in front and a lookup by id takes the first row
  with that id.
\<close>

record store =
  storageModels_tbl :: "StorageModelRow list"
  storageTables_tbl :: "StorageTableRow list"
  viewModels_tbl :: "ViewRow list"
  formModels_tbl :: "FormRow list"
  operationModels_tbl :: "OperationRow list"
  domainModels_tbl :: "DomainRow list"
  next_id :: nat

datatype store_error = ForeignKeyViolation

text \<open>Decimal rendering of a natural number; identifiers are built from a counter.\<close>

definition digit_char :: "nat \<Rightarrow> char" where
  "digit_char d = ''0123456789'' ! d"

function show_nat :: "nat \<Rightarrow> string" where
  "show_nat n = (if n < 10 then [digit_char n] else show_nat (n div 10) @ [digit_char (n mod 10)])"
  by pat_completeness auto
termination
  by (relation "measure (\<lambda>n. n)") auto

declare show_nat.simps [simp del]

definition new_id :: "nat \<Rightarrow> string" where
  "new_id n = ''id'' @ show_nat n"

subsection \<open>Reading rows with their relations\<close>

definition include_operation :: "OperationRow \<Rightarrow> OperationPayload" where
  \<comment> \<open>an element of \<^verbatim>\<open>operations: true\<close>\<close>
  "include_operation r = \<lparr> op_row = r, op_formModel = NotIncluded \<rparr>"

definition include_view :: "ViewRow \<Rightarrow> ViewPayload" where
  \<comment> \<open>an element of \<^verbatim>\<open>views: true\<close>\<close>
  "include_view r = \<lparr> vp_row = r, vp_storageTable = NotIncluded \<rparr>"

definition operations_of_form :: "store \<Rightarrow> string \<Rightarrow> OperationPayload list" where
  "operations_of_form s fid =
     map include_operation (filter (\<lambda>r. or_formModelId r = Some fid) (operationModels_tbl s))"

definition include_form_operations :: "store \<Rightarrow> FormRow \<Rightarrow> FormPayload" where
  \<comment> \<open>an element of \<^verbatim>\<open>forms: { include: { operations: true } }\<close>\<close>
  "include_form_operations s r =
     \<lparr> fp_row = r, fp_operations = Some (operations_of_form s (fr_id r)),
       fp_storageTable = NotIncluded \<rparr>"

definition include_table :: "store \<Rightarrow> StorageTableRow \<Rightarrow> StorageTablePayload" where
  \<comment> \<open>a table with \<^verbatim>\<open>forms: { include: { operations: true } }, views: true\<close>\<close>
  "include_table s r =
     \<lparr> tp_row = r,
       tp_forms = map (include_form_operations s)
                    (filter (\<lambda>f. fr_storageTableId f = tr_id r) (formModels_tbl s)),
       tp_views = map include_view
                    (filter (\<lambda>v. vr_storageTableId v = tr_id r) (viewModels_tbl s)) \<rparr>"

definition load_relation :: "'r option \<Rightarrow> 'r relation" where
  "load_relation found = (case found of Some r \<Rightarrow> Loaded r | None \<Rightarrow> IsNull)"

definition include_view_relations :: "store \<Rightarrow> ViewRow \<Rightarrow> ViewPayload" where
  \<comment> \<open>\<^verbatim>\<open>include: { storageModel: true, storageTable: true }\<close>\<close>
  "include_view_relations s r =
     \<lparr> vp_row = r,
       vp_storageTable =
         load_relation (find (\<lambda>t. tr_id t = vr_storageTableId r) (storageTables_tbl s)) \<rparr>"

definition include_form_relations :: "store \<Rightarrow> FormRow \<Rightarrow> FormPayload" where
  \<comment> \<open>\<^verbatim>\<open>include: { storageTable: true, operations: true }\<close>\<close>
  "include_form_relations s r =
     \<lparr> fp_row = r, fp_operations = Some (operations_of_form s (fr_id r)),
       fp_storageTable =
         load_relation (find (\<lambda>t. tr_id t = fr_storageTableId r) (storageTables_tbl s)) \<rparr>"

definition include_operation_relations :: "store \<Rightarrow> OperationRow \<Rightarrow> OperationPayload" where
  \<comment> \<open>\<^verbatim>\<open>include: { formModel: true, storageModel: true }\<close>\<close>
  "include_operation_relations s r =
     \<lparr> op_row = r,
       op_formModel =
         (case or_formModelId r of
            None \<Rightarrow> IsNull
          | Some fid \<Rightarrow> load_relation (find (\<lambda>f. fr_id f = fid) (formModels_tbl s))) \<rparr>"

text \<open>The targets of the join rows of a domain, in the order of the join rows.\<close>

definition join_targets :: "('r \<Rightarrow> string) \<Rightarrow> 'r list \<Rightarrow> string list \<Rightarrow> 'r list" where
  "join_targets key rows ids =
     concat (map (\<lambda>i. case find (\<lambda>r. key r = i) rows of Some r \<Rightarrow> [r] | None \<Rightarrow> []) ids)"




definition dataOperationModel_findUnique :: "store \<Rightarrow> string \<Rightarrow> OperationPayload option" where
  "dataOperationModel_findUnique s i =
     map_option (include_operation_relations s)
       (find (\<lambda>r. or_id r = i) (operationModels_tbl s))"


subsection \<open>Writing rows\<close>

definition has_row :: "('r \<Rightarrow> string) \<Rightarrow> 'r list \<Rightarrow> string \<Rightarrow> bool" where
  "has_row key rows i = (find (\<lambda>r. key r = i) rows \<noteq> None)"



text \<open>
  The data of an operation as the route hands it over: an optional reference is
  \<open>None\<close> when the property is \<^verbatim>\<open>undefined\<close>, and then the column is null and
  nothing is looked up for it.
\<close>

record OperationData =
  od_name :: string
  od_description :: "string option"
  od_type :: operation_type
  od_endpoint :: "string option"
  od_method :: "string option"
  od_storageModelId :: "string option"
  od_formModelId :: "string option"
  od_requestSchema :: "json option"
  od_responseSchema :: "json option"

definition reference_ok :: "('r \<Rightarrow> string) \<Rightarrow> 'r list \<Rightarrow> string option \<Rightarrow> bool" where
  "reference_ok key rows reference =
     (case reference of None \<Rightarrow> True | Some i \<Rightarrow> has_row key rows i)"

definition json_column :: "json option \<Rightarrow> json" where
  "json_column v = (case v of None \<Rightarrow> JNull | Some j \<Rightarrow> j)"

definition dataOperationModel_create ::
  "store \<Rightarrow> date \<Rightarrow> OperationData \<Rightarrow> store_error + (OperationRow \<times> store)" where
  "dataOperationModel_create s now d =
     (if \<not> reference_ok mr_id (storageModels_tbl s) (od_storageModelId d)
         \<or> \<not> reference_ok fr_id (formModels_tbl s) (od_formModelId d)
      then Inl ForeignKeyViolation
      else
        let r = \<lparr> or_id = new_id (next_id s), or_name = od_name d,
                  or_description = od_description d, or_type = od_type d,
                  or_endpoint = od_endpoint d, or_method = od_method d,
                  or_storageModelId = od_storageModelId d,
                  or_formModelId = od_formModelId d,
                  or_requestSchema = json_column (od_requestSchema d),
                  or_responseSchema = json_column (od_responseSchema d),
                  or_createdAt = now, or_updatedAt = now \<rparr>
        in Inr (r, s\<lparr> operationModels_tbl := r # operationModels_tbl s,
                       next_id := Suc (next_id s) \<rparr>))"


section \<open>Requests, validation and responses\<close>

text \<open>
  A request body is modelled at the type its validation schema accepts: a property the
  schema marks optional is an option, and a body that the schema rejects is outside the
  type. \<^verbatim>\<open>z.object\<close> drops the properties that its shape does not declare. For the
  objects whose content a route stores (a layout, a schema and their fields) the request
  carries these properties beside the declared ones, as a list \<open>others\<close> of names and
  values; undeclared properties of the body itself are dropped in the same way and play
  no part below. A submitted object is rendered with its declared properties in the
  order of the schema, which is the order the parsed object has: the order in which a
  body lists the properties of an object is not part of the request. The validation
  messages are named by what they say:
  \<^item> \<open>NameRequired\<close>: the name of the model is empty;
  \<^item> \<open>StorageModelRequired\<close>, \<open>StorageTableRequired\<close>: the id is empty;
  \<^item> \<open>FieldsRequired\<close>: the field list is empty;
  \<^item> \<open>ColumnRequired\<close>, \<open>LabelRequired\<close>, \<open>ComponentRequired\<close>: a view or form field
    lacks its column, label or component;
  \<^item> \<open>KeyRequired\<close>, \<open>FieldNameRequired\<close>: a domain field lacks its key or name;
  \<^item> \<open>IdRequired\<close>: an element of an id array is empty;
  \<^item> \<open>HostRequired\<close>, \<open>UserRequired\<close>, \<open>DatabaseRequired\<close>: the connection lacks it.
\<close>

datatype issue =
    NameRequired | StorageModelRequired | StorageTableRequired | FieldsRequired
  | ColumnRequired | LabelRequired | ComponentRequired
  | KeyRequired | FieldNameRequired | IdRequired
  | HostRequired | UserRequired | DatabaseRequired

text \<open>
  What a failed response says: the validation messages joined into one text (400), the
  fixed text for a database without tables (400), the fixed text for a created row that
  cannot be read back (500), the text made from the message of an error thrown by the
  store or by the target database (500), and the text made from the message of the
  \<^verbatim>\<open>TypeError\<close> that reading an element of \<^verbatim>\<open>undefined\<close> throws (500).
\<close>

datatype failure =
    ValidationError "issue list"
  | NoTablesDetected
  | NotFoundAfterCreate
  | PersistenceError store_error
  | UpstreamError string
  | TypeErrorThrown

datatype 'doc response = Response (status: nat) (body: "failure + 'doc")

definition min1 :: "string \<Rightarrow> issue \<Rightarrow> issue list" where
  \<comment> \<open>\<^verbatim>\<open>z.string().min(1, message)\<close>\<close>
  "min1 s message = (if s = [] then [message] else [])"


subsection \<open>View models (\<^verbatim>\<open>app/api/view-models/route.ts\<close>)\<close>












subsection \<open>Form models (\<^verbatim>\<open>app/api/form-models/route.ts\<close>)\<close>












subsection \<open>Operation models (\<^verbatim>\<open>app/api/operation-models/route.ts\<close>)\<close>

text \<open>A property declared \<^verbatim>\<open>.optional().nullable()\<close>.\<close>

datatype 'a nullish = Undefined | Null | Value 'a

record createOperationRequest =
  co_name :: string
  co_description :: "string option"
  co_type :: "operation_type option"
  co_endpoint :: "string option"
  co_method :: "string option"
  co_storageModelId :: "string nullish"
  co_formModelId :: "string nullish"
  co_requestSchema :: "json option"
  co_responseSchema :: "json option"

record createOperationData =
  cod_name :: string
  cod_description :: "string option"
  cod_type :: operation_type
  cod_endpoint :: "string option"
  cod_method :: "string option"
  cod_storageModelId :: "string nullish"
  cod_formModelId :: "string nullish"
  cod_requestSchema :: "json option"
  cod_responseSchema :: "json option"

definition createOperationSchema_parse ::
  "createOperationRequest \<Rightarrow> issue list + createOperationData" where
  "createOperationSchema_parse payload =
     (let issues = min1 (co_name payload) NameRequired
      in if issues = []
         then Inr \<lparr> cod_name = co_name payload, cod_description = co_description payload,
                    cod_type = (case co_type payload of None \<Rightarrow> READ | Some t \<Rightarrow> t),
                    cod_endpoint = co_endpoint payload, cod_method = co_method payload,
                    cod_storageModelId = co_storageModelId payload,
                    cod_formModelId = co_formModelId payload,
                    cod_requestSchema = co_requestSchema payload,
                    cod_responseSchema = co_responseSchema payload \<rparr>
         else Inl issues)"

text \<open>\<^verbatim>\<open>x || undefined\<close> on an optional, nullable string.\<close>

fun or_undefined :: "string nullish \<Rightarrow> string option" where
  "or_undefined Undefined = None"
| "or_undefined Null = None"
| "or_undefined (Value v) = (if v = [] then None else Some v)"

definition POST_operation_models ::
  "store \<Rightarrow> date \<Rightarrow> createOperationRequest \<Rightarrow> OperationModel response \<times> store" where
  "POST_operation_models s now payload =
     (case createOperationSchema_parse payload of
        Inl issues \<Rightarrow> (Response 400 (Inl (ValidationError issues)), s)
      | Inr data \<Rightarrow>
          (case dataOperationModel_create s now
                  \<lparr> od_name = cod_name data, od_description = cod_description data,
                    od_type = cod_type data, od_endpoint = cod_endpoint data,
                    od_method = cod_method data,
                    od_storageModelId = or_undefined (cod_storageModelId data),
                    od_formModelId = or_undefined (cod_formModelId data),
                    od_requestSchema = cod_requestSchema data,
                    od_responseSchema = cod_responseSchema data \<rparr> of
             Inl e \<Rightarrow> (Response 500 (Inl (PersistenceError e)), s)
           | Inr (operation, s') \<Rightarrow>
               (case dataOperationModel_findUnique s' (or_id operation) of
                  None \<Rightarrow> (Response 500 (Inl NotFoundAfterCreate), s')
                | Some detail \<Rightarrow>
                    (Response 201
                       (Inr (ddl_operationModels
                               (serializeDashboardData_lib [] [] [] [detail]) ! 0)),
                     s'))))"

subsection \<open>Domain models (\<^verbatim>\<open>app/api/domain-models/route.ts\<close>)\<close>







text \<open>\<^verbatim>\<open>Array.from(new Set(value))\<close>: the first occurrence of each element, in order.\<close>

definition Set_add :: "'a list \<Rightarrow> 'a \<Rightarrow> 'a list" where
  "Set_add seen x = (if x \<in> set seen then seen else seen @ [x])"

definition Array_from_Set :: "'a list \<Rightarrow> 'a list" where
  "Array_from_Set xs = foldl Set_add [] xs"




text \<open>\<^verbatim>\<open>description || undefined\<close> on an optional string.\<close>

definition nonempty_or_undefined :: "string option \<Rightarrow> string option" where
  "nonempty_or_undefined v =
     (case v of None \<Rightarrow> None | Some s \<Rightarrow> if s = [] then None else Some s)"


section \<open>The schema importer (\<^verbatim>\<open>app/api/storage-models/import/route.ts\<close>)\<close>

subsection \<open>The request\<close>

text \<open>
  The port as \<^verbatim>\<open>Number(data.port)\<close> reads it: not a number, an infinity, or a finite
  value. Only integral finite values are represented.
\<close>

datatype js_number = NaN | PlusInfinity | MinusInfinity | Finite int

record connectionInput =
  ci_host :: string
  ci_port :: "js_number option"
  ci_user :: string
  ci_password :: "string option"
  ci_database :: string

record connectionConfig =
  cc_host :: string
  cc_port :: int
  cc_user :: string
  cc_password :: string
  cc_database :: string

record importRequest =
  ir_name :: string
  ir_description :: "string option"
  ir_connection :: connectionInput

record importData =
  id_name :: string
  id_description :: "string option"
  id_connection :: connectionConfig

definition connectionSchema_transform :: "connectionInput \<Rightarrow> connectionConfig" where
  "connectionSchema_transform data =
     (let portValue = (case ci_port data of Some v \<Rightarrow> v | None \<Rightarrow> Finite 3306);
          port = (case portValue of
                    Finite n \<Rightarrow> if n > 0 then n else 3306
                  | _ \<Rightarrow> 3306)
      in \<lparr> cc_host = ci_host data, cc_port = port, cc_user = ci_user data,
           cc_password = (case ci_password data of Some p \<Rightarrow> p | None \<Rightarrow> []),
           cc_database = ci_database data \<rparr>)"

definition importSchema_parse :: "importRequest \<Rightarrow> issue list + importData" where
  "importSchema_parse payload =
     (let c = ir_connection payload;
          issues = min1 (ir_name payload) NameRequired
                   @ min1 (ci_host c) HostRequired
                   @ min1 (ci_user c) UserRequired
                   @ min1 (ci_database c) DatabaseRequired
      in if issues = []
         then Inr \<lparr> id_name = ir_name payload, id_description = ir_description payload,
                    id_connection = connectionSchema_transform c \<rparr>
         else Inl issues)"

subsection \<open>The target database\<close>

text \<open>
  What connecting with a configuration and running the two catalog queries gives: the
  connection is refused, the table query throws, the table query returns its rows and
  the column query throws, or both queries return their rows. The importer receives the
  target database as a function of the configuration.
\<close>

record tableRow =
  t_tableName :: string
  t_tableComment :: string

record columnRow =
  c_tableName :: string
  c_columnName :: string
  c_columnType :: string
  c_columnKey :: "string option"
  c_isNullable :: string
  c_columnDefault :: json
  c_columnComment :: "string option"

datatype catalog =
    ConnectionError string
  | QueryError string
  | ColumnQueryError "tableRow list" string
  | Catalog "tableRow list" "columnRow list"

subsection \<open>Grouping the columns\<close>

record ColumnSchema =
  cs_name :: string
  cs_type :: string
  cs_key :: "string option"
  cs_nullable :: bool
  cs_default :: json
  cs_comment :: "string option"

definition toColumnSchema :: "columnRow \<Rightarrow> ColumnSchema" where
  "toColumnSchema column =
     \<lparr> cs_name = c_columnName column, cs_type = c_columnType column,
       cs_key = c_columnKey column, cs_nullable = (c_isNullable column = ''YES''),
       cs_default = c_columnDefault column, cs_comment = c_columnComment column \<rparr>"

text \<open>
  A JavaScript \<^verbatim>\<open>Map\<close>: the entries in insertion order; setting a key that is
  present replaces its value in place, a new key goes to the end.
\<close>

type_synonym ('k, 'v) js_map = "('k \<times> 'v) list"

definition Map_get :: "('k, 'v) js_map \<Rightarrow> 'k \<Rightarrow> 'v option" where
  "Map_get m k = map_of m k"

fun Map_set :: "('k, 'v) js_map \<Rightarrow> 'k \<Rightarrow> 'v \<Rightarrow> ('k, 'v) js_map" where
  "Map_set [] k v = [(k, v)]"
| "Map_set (p # ps) k v = (if fst p = k then (k, v) # ps else p # Map_set ps k v)"

text \<open>The loop \<^verbatim>\<open>for (const column of columnRows)\<close> from a given map.\<close>

fun columnsByTable_loop ::
  "(string, ColumnSchema list) js_map \<Rightarrow> columnRow list \<Rightarrow> (string, ColumnSchema list) js_map"
where
  "columnsByTable_loop m [] = m"
| "columnsByTable_loop m (column # columnRows) =
     (let list = (case Map_get m (c_tableName column) of Some l \<Rightarrow> l | None \<Rightarrow> [])
      in columnsByTable_loop
           (Map_set m (c_tableName column) (list @ [toColumnSchema column])) columnRows)"

definition columnsByTable :: "columnRow list \<Rightarrow> (string, ColumnSchema list) js_map" where
  "columnsByTable columnRows = columnsByTable_loop [] columnRows"

record importedTable =
  it_name :: string
  it_description :: "string option"
  it_columns :: "ColumnSchema list"

definition tables_of :: "tableRow list \<Rightarrow> columnRow list \<Rightarrow> importedTable list" where
  \<comment> \<open>\<^verbatim>\<open>const tables = tableRows.map(...)\<close>\<close>
  "tables_of tableRows columnRows =
     map (\<lambda>table.
            \<lparr> it_name = t_tableName table,
              it_description =
                (if t_tableComment table = [] then None else Some (t_tableComment table)),
              it_columns = (case Map_get (columnsByTable columnRows) (t_tableName table) of
                              Some columns \<Rightarrow> columns
                            | None \<Rightarrow> []) \<rparr>)
         tableRows"

text \<open>Re-flattening the groups: the values of the map, in its iteration order.\<close>

definition flatten_groups :: "('k, 'v list) js_map \<Rightarrow> 'v list" where
  "flatten_groups m = concat (map snd m)"

text \<open>
  The rows of one table are adjacent, as \<^verbatim>\<open>ORDER BY TABLE_NAME, ORDINAL_POSITION\<close>
  returns them: once the rows of a table have ended, that table does not come back.
\<close>

fun ordered_by_table :: "columnRow list \<Rightarrow> bool" where
  "ordered_by_table [] = True"
| "ordered_by_table (r # rs) =
     (list_all (\<lambda>x. c_tableName x \<noteq> c_tableName r)
        (dropWhile (\<lambda>x. c_tableName x = c_tableName r) rs)
      \<and> ordered_by_table rs)"

subsection \<open>The stored documents\<close>

definition json_nullable :: "string option \<Rightarrow> json" where
  "json_nullable v = (case v of None \<Rightarrow> JNull | Some s \<Rightarrow> JStr s)"

definition ColumnSchema_json :: "ColumnSchema \<Rightarrow> json" where
  "ColumnSchema_json c =
     JObj [(''name'', JStr (cs_name c)), (''type'', JStr (cs_type c)),
           (''key'', json_nullable (cs_key c)), (''nullable'', JBool (cs_nullable c)),
           (''default'', cs_default c), (''comment'', json_nullable (cs_comment c))]"

definition table_schema_json :: "ColumnSchema list \<Rightarrow> json" where
  \<comment> \<open>\<^verbatim>\<open>schema: { columns: table.columns }\<close>\<close>
  "table_schema_json columns = JObj [(''columns'', JArr (map ColumnSchema_json columns))]"

definition model_schema_json :: "string \<Rightarrow> importedTable list \<Rightarrow> json" where
  \<comment> \<open>\<^verbatim>\<open>schema: { importedAt, tables: [...] }\<close>\<close>
  "model_schema_json importedAt tables =
     JObj [(''importedAt'', JStr importedAt),
           (''tables'',
            JArr (map (\<lambda>table.
                         JObj [(''name'', JStr (it_name table)),
                               (''description'', json_nullable (it_description table)),
                               (''columns'', JArr (map ColumnSchema_json (it_columns table)))])
                      tables))]"

subsection \<open>The connection descriptor\<close>

text \<open>
  \<^verbatim>\<open>encodeURIComponent\<close> on a string of UTF-8 bytes: an unreserved character stays,
  every other byte becomes \<^verbatim>\<open>%XX\<close>.
\<close>

definition unreserved :: "char \<Rightarrow> bool" where
  "unreserved c =
     (c \<in> set (''ABCDEFGHIJKLMNOPQRSTUVWXYZabcdefghijklmnopqrstuvwxyz0123456789-_.!~*()''
              @ [CHR 0x27]))"

definition hex_char :: "nat \<Rightarrow> char" where
  "hex_char d = ''0123456789ABCDEF'' ! d"

definition encodeURIComponent :: "string \<Rightarrow> string" where
  "encodeURIComponent s =
     concat (map (\<lambda>c. if unreserved c then [c]
                      else [CHR ''%'', hex_char (of_char c div 16), hex_char (of_char c mod 16)])
               s)"

definition connection_descriptor :: "string \<Rightarrow> string \<Rightarrow> int \<Rightarrow> string \<Rightarrow> string" where
  \<comment> \<open>\<^verbatim>\<open>`mysql://${encodeURIComponent(user)}@${host}:${port}/${database}`\<close>\<close>
  "connection_descriptor user host port database =
     ''mysql://'' @ encodeURIComponent user @ ''@'' @ host @ '':'' @ show_nat (nat port)
       @ ''/'' @ database"

subsection \<open>Creating the storage model and answering\<close>

text \<open>
  The nested create of the model and its tables: the model takes the next identifier
  and the tables the following ones; the created model is returned with its relations
  as the \<^verbatim>\<open>include\<close> asks.
\<close>

record StorageTableData =
  td_name :: string
  td_description :: "string option"
  td_schema :: json

definition new_table_rows ::
  "nat \<Rightarrow> date \<Rightarrow> string \<Rightarrow> StorageTableData list \<Rightarrow> StorageTableRow list" where
  "new_table_rows n now modelId tables =
     map (\<lambda>(i, d). \<lparr> tr_id = new_id i, tr_name = td_name d,
                      tr_description = td_description d, tr_schema = td_schema d,
                      tr_storageModelId = modelId, tr_createdAt = now, tr_updatedAt = now \<rparr>)
       (zip [n ..< n + length tables] tables)"

definition include_model_relations :: "store \<Rightarrow> StorageModelRow \<Rightarrow> StorageModelPayload" where
  "include_model_relations s r =
     \<lparr> sp_row = r,
       sp_tables = map (include_table s)
                     (filter (\<lambda>t. tr_storageModelId t = mr_id r) (storageTables_tbl s)),
       sp_operations = map include_operation
                         (filter (\<lambda>x. or_storageModelId x = Some (mr_id r))
                            (operationModels_tbl s)),
       sp_views = map include_view
                    (filter (\<lambda>v. vr_storageModelId v = mr_id r) (viewModels_tbl s)) \<rparr>"

definition dataStorageModel_create ::
  "store \<Rightarrow> date \<Rightarrow> string \<Rightarrow> string option \<Rightarrow> string \<Rightarrow> string option \<Rightarrow> json
     \<Rightarrow> StorageTableData list \<Rightarrow> StorageModelPayload \<times> store" where
  "dataStorageModel_create s now name description database connection schema tables =
     (let r = \<lparr> mr_id = new_id (next_id s), mr_name = name, mr_description = description,
               mr_database = database, mr_connection = connection, mr_schema = schema,
               mr_createdAt = now, mr_updatedAt = now \<rparr>;
          rows = new_table_rows (Suc (next_id s)) now (mr_id r) tables;
          s' = s\<lparr> storageModels_tbl := r # storageModels_tbl s,
                  storageTables_tbl := rows @ storageTables_tbl s,
                  next_id := Suc (next_id s) + length tables \<rparr>
      in (include_model_relations s' r, s'))"

text \<open>
  The handler. \<open>mysql\<close> is the target database, \<open>now\<close> the instant of the write and
  \<open>importedAt\<close> the text of \<^verbatim>\<open>new Date().toISOString()\<close>. Both catalog queries run
  before the table rows are counted, so an error thrown by the column query reaches the
  \<^verbatim>\<open>catch\<close> block whatever the table query has returned.
\<close>

definition POST_storage_models_import ::
  "(connectionConfig \<Rightarrow> catalog) \<Rightarrow> store \<Rightarrow> date \<Rightarrow> string \<Rightarrow> importRequest
     \<Rightarrow> StorageModel response \<times> store" where
  "POST_storage_models_import mysql s now importedAt payload =
     (case importSchema_parse payload of
        Inl issues \<Rightarrow> (Response 400 (Inl (ValidationError issues)), s)
      | Inr data \<Rightarrow>
          (let conn = id_connection data in
           case mysql conn of
             ConnectionError message \<Rightarrow> (Response 500 (Inl (UpstreamError message)), s)
           | QueryError message \<Rightarrow> (Response 500 (Inl (UpstreamError message)), s)
           | ColumnQueryError tableRows message \<Rightarrow>
               (Response 500 (Inl (UpstreamError message)), s)
           | Catalog tableRows columnRows \<Rightarrow>
               if length tableRows = 0 then (Response 400 (Inl NoTablesDetected), s)
               else
                 let tables = tables_of tableRows columnRows;
                     (createdModel, s') =
                       dataStorageModel_create s now (id_name data)
                         (nonempty_or_undefined (id_description data))
                         (cc_database conn)
                         (Some (connection_descriptor (cc_user conn) (cc_host conn)
                                  (cc_port conn) (cc_database conn)))
                         (model_schema_json importedAt tables)
                         (map (\<lambda>table.
                                 \<lparr> td_name = it_name table,
                                   td_description = nonempty_or_undefined (it_description table),
                                   td_schema = table_schema_json (it_columns table) \<rparr>)
                              tables)
                 in (Response 200
                       (Inr (ddl_storageModels
                               (serializeDashboardData_lib [createdModel] [] [] []) ! 0)),
                     s')))"

text \<open>
  The store that a successful import of the given catalog rows leaves: one new model
  row, one new table row for every table row of the catalog, the counter advanced.
\<close>

definition imported_store ::
  "store \<Rightarrow> date \<Rightarrow> string \<Rightarrow> importData \<Rightarrow> tableRow list \<Rightarrow> columnRow list \<Rightarrow> store" where
  "imported_store s now importedAt data tableRows columnRows =
     s\<lparr> storageModels_tbl :=
           \<lparr> mr_id = new_id (next_id s), mr_name = id_name data,
             mr_description = nonempty_or_undefined (id_description data),
             mr_database = cc_database (id_connection data),
             mr_connection =
               Some (connection_descriptor (cc_user (id_connection data))
                       (cc_host (id_connection data)) (cc_port (id_connection data))
                       (cc_database (id_connection data))),
             mr_schema = model_schema_json importedAt (tables_of tableRows columnRows),
             mr_createdAt = now, mr_updatedAt = now \<rparr> # storageModels_tbl s,
         storageTables_tbl :=
           new_table_rows (Suc (next_id s)) now (new_id (next_id s))
             (map (\<lambda>table. \<lparr> td_name = it_name table,
                              td_description = nonempty_or_undefined (it_description table),
                              td_schema = table_schema_json (it_columns table) \<rparr>)
                (tables_of tableRows columnRows))
           @ storageTables_tbl s,
         next_id := Suc (next_id s) + length tableRows \<rparr>"

text \<open>
  A target database whose catalog may change while the application runs: \<open>answers n\<close>
  is what the connection number \<open>n\<close> finds, and \<open>connections\<close> counts the connections
  made so far. The handler calls \<^verbatim>\<open>mysql.createConnection\<close> once, after the body has been
  validated and outside any loop: a request that passes validation reads the answer to
  one connection and leaves the count one higher, whatever that answer is.
\<close>

record target =
  answers :: "nat \<Rightarrow> connectionConfig \<Rightarrow> catalog"
  connections :: nat

definition import_from ::
  "target \<Rightarrow> store \<Rightarrow> date \<Rightarrow> string \<Rightarrow> importRequest
     \<Rightarrow> (StorageModel response \<times> store) \<times> target" where
  "import_from db s now importedAt payload =
     (POST_storage_models_import (answers db (connections db)) s now importedAt payload,
      (case importSchema_parse payload of
         Inl issues \<Rightarrow> db
       | Inr data \<Rightarrow> db\<lparr> connections := Suc (connections db) \<rparr>))"

section \<open>Sample data\<close>

text \<open>
  A domain schema with current and legacy spellings, a property besides \<^verbatim>\<open>fields\<close>,
  an entry without a name and an entry that is not an object.
\<close>

definition sample_schema :: json where
  "sample_schema =
     JObj [(''title'', JStr ''users''),
           (''fields'',
            JArr [JObj [(''key'', JStr ''uid''), (''name'', JStr ''User ID''),
                        (''type'', JStr ''string''), (''required'', JBool True)],
                  JObj [(''column'', JStr ''email''), (''label'', JStr ''Email''),
                        (''dataType'', JStr ''text''), (''description'', JNull)],
                  JObj [(''key'', JStr ''orphan'')],
                  JStr ''noise''])]"

definition sample_fields :: "DomainField list" where
  "sample_fields =
     [\<lparr> df_key = ''uid'', df_name = ''User ID'', df_type = Some ''string'',
        df_required = Some True, df_description = DescUndefined \<rparr>,
      \<lparr> df_key = ''email'', df_name = ''Email'', df_type = Some ''text'',
        df_required = None, df_description = DescNull \<rparr>]"

definition domain_with_schema :: "json \<Rightarrow> DomainPayload" where
  "domain_with_schema schema =
     \<lparr> dp_row = \<lparr> dr_id = ''d1'', dr_name = ''Accounts'', dr_description = None,
                  dr_schema = schema, dr_createdAt = 0, dr_updatedAt = 0,
                  dr_storageTableIds = [], dr_viewModelIds = [],
                  dr_formModelIds = [], dr_operationModelIds = [] \<rparr>,
       dp_storageTables = [], dp_viewModels = [], dp_formModels = [],
       dp_operationModels = [] \<rparr>"

text \<open>The catalog of a database with the tables \<^verbatim>\<open>orders\<close> and \<^verbatim>\<open>users\<close>.\<close>

definition column_of :: "string \<Rightarrow> string \<Rightarrow> string \<Rightarrow> string \<Rightarrow> columnRow" where
  "column_of table name type key =
     \<lparr> c_tableName = table, c_columnName = name, c_columnType = type,
       c_columnKey = Some key, c_isNullable = ''NO'', c_columnDefault = JNull,
       c_columnComment = Some [] \<rparr>"

definition sample_columns :: "columnRow list" where
  "sample_columns =
     [column_of ''orders'' ''id'' ''int'' ''PRI'',
      column_of ''orders'' ''user_id'' ''int'' ''MUL'',
      column_of ''users'' ''id'' ''int'' ''PRI'',
      column_of ''users'' ''name'' ''varchar(64)'' [],
      column_of ''users'' ''email'' ''varchar(128)'' ''UNI'']"

text \<open>
  An import request whose password equals its user name, against that database with
  one more table that has no column rows, and the empty store.
\<close>

definition sample_tables :: "tableRow list" where
  "sample_tables =
     [\<lparr> t_tableName = ''audit'', t_tableComment = [] \<rparr>,
      \<lparr> t_tableName = ''orders'', t_tableComment = ''customer orders'' \<rparr>,
      \<lparr> t_tableName = ''users'', t_tableComment = [] \<rparr>]"

definition sample_database :: "connectionConfig \<Rightarrow> catalog" where
  "sample_database conn = Catalog sample_tables sample_columns"

definition empty_database :: "connectionConfig \<Rightarrow> catalog" where
  "empty_database conn = Catalog [] []"

text \<open>
  A schema without tables on a server that drops the connection during the column
  query, and a schema that has no tables at the first connection and the sample tables
  from the second connection on.
\<close>

definition failing_database :: "connectionConfig \<Rightarrow> catalog" where
  "failing_database conn = ColumnQueryError [] ''Connection lost''"

definition growing_database :: target where
  "growing_database =
     \<lparr> answers = (\<lambda>n. if n = 0 then empty_database else sample_database),
       connections = 0 \<rparr>"

definition sample_import :: importRequest where
  "sample_import =
     \<lparr> ir_name = ''Shop'', ir_description = None,
       ir_connection = \<lparr> ci_host = ''localhost'', ci_port = None, ci_user = ''admin'',
                          ci_password = Some ''admin'', ci_database = ''shop'' \<rparr> \<rparr>"

definition sample_import_data :: importData where
  "sample_import_data =
     \<lparr> id_name = ''Shop'', id_description = None,
       id_connection = \<lparr> cc_host = ''localhost'', cc_port = 3306, cc_user = ''admin'',
                          cc_password = ''admin'', cc_database = ''shop'' \<rparr> \<rparr>"

definition empty_store :: store where
  "empty_store =
     \<lparr> storageModels_tbl = [], storageTables_tbl = [], viewModels_tbl = [],
       formModels_tbl = [], operationModels_tbl = [], domainModels_tbl = [], next_id = 0 \<rparr>"

text \<open>
  A store with one storage model, one of its tables and one form of that table, and rows
  loaded from it.
\<close>

definition sample_table :: StorageTableRow where
  "sample_table =
     \<lparr> tr_id = ''t1'', tr_name = ''users'', tr_description = None,
       tr_schema = JObj [(''columns'', JArr [])], tr_storageModelId = ''m1'',
       tr_createdAt = 0, tr_updatedAt = 0 \<rparr>"


definition sample_view :: ViewPayload where
  "sample_view =
     \<lparr> vp_row = \<lparr> vr_id = ''v1'', vr_name = ''User list'', vr_description = None,
                  vr_layout = JNull, vr_storageModelId = ''m1'', vr_storageTableId = ''t1'',
                  vr_createdAt = 0, vr_updatedAt = 0 \<rparr>,
       vp_storageTable = Loaded sample_table \<rparr>"

definition sample_form :: FormPayload where
  "sample_form =
     \<lparr> fp_row = \<lparr> fr_id = ''f1'', fr_name = ''Sign up'', fr_description = None,
                  fr_schema = JNull, fr_storageTableId = ''t1'',
                  fr_createdAt = 0, fr_updatedAt = 0 \<rparr>,
       fp_operations = None,
       fp_storageTable = IsNull \<rparr>"

definition sample_operation :: OperationPayload where
  "sample_operation =
     \<lparr> op_row = \<lparr> or_id = ''o1'', or_name = ''List users'', or_description = None,
                  or_type = READ, or_endpoint = None, or_method = None,
                  or_storageModelId = None, or_formModelId = None,
                  or_requestSchema = JNull, or_responseSchema = JNull,
                  or_createdAt = 0, or_updatedAt = 0 \<rparr>,
       op_formModel = NotIncluded \<rparr>"




definition sample_operation_request :: createOperationRequest where
  "sample_operation_request =
     \<lparr> co_name = ''List users'', co_description = None, co_type = None,
       co_endpoint = Some ''/api/users'', co_method = Some ''GET'',
       co_storageModelId = Value [], co_formModelId = Null,
       co_requestSchema = None, co_responseSchema = None \<rparr>"



text \<open>The document of a response, if it carries one.\<close>

definition document :: "'doc response \<Rightarrow> 'doc option" where
  "document r = (case body r of Inr doc \<Rightarrow> Some doc | Inl failure \<Rightarrow> None)"

section \<open>Properties of the field extraction\<close>

lemma typeof_string_prop:
  "typeof_string (get_prop item k) = (string_prop item k \<noteq> None)"
  by (simp add: string_prop_def split: option.splits json.splits)

lemma as_string_prop:
  "typeof_string (get_prop item k) \<Longrightarrow> as_string (get_prop item k) = the (string_prop item k)"
  by (cases "get_prop item k" rule: typeof_string.cases) (simp_all add: string_prop_def)

lemma required_prop:
  "(if typeof_boolean v then Some (as_boolean v) else None)
     = (case v of Some (JBool b) \<Rightarrow> Some b | _ \<Rightarrow> None)"
  by (simp split: option.splits json.splits)

lemma description_prop:
  "(if typeof_string v then DescString (as_string v)
    else if v = Some JNull then DescNull else DescUndefined)
     = (case v of Some (JStr s) \<Rightarrow> DescString s | Some JNull \<Rightarrow> DescNull | _ \<Rightarrow> DescUndefined)"
  by (simp split: option.splits json.splits)

lemma either_string:
  "(if typeof_string (get_prop item k) then as_string (get_prop item k)
    else if typeof_string (get_prop item legacy) then as_string (get_prop item legacy) else [])
     = (case either_prop item k legacy of Some s \<Rightarrow> s | None \<Rightarrow> [])"
  by (auto simp: typeof_string_prop as_string_prop either_prop_def split: option.splits)

lemma either_type:
  "(if typeof_string (get_prop item k) then Some (as_string (get_prop item k))
    else if typeof_string (get_prop item legacy) then Some (as_string (get_prop item legacy))
    else None)
     = either_prop item k legacy"
  by (auto simp: typeof_string_prop as_string_prop either_prop_def split: option.splits)

lemma primitive_has_no_props:
  "\<not> truthy item \<or> \<not> typeof_object item \<Longrightarrow> get_prop item k = None"
  by (cases item) simp_all

lemma primitive_missing:
  "\<not> truthy item \<or> \<not> typeof_object item \<Longrightarrow> missing (either_prop item k legacy)"
  by (simp add: missing_def either_prop_def string_prop_def primitive_has_no_props)

lemma toDomainField_spec:
  "toDomainField item =
     (if missing (either_prop item ''key'' ''column'')
         \<or> missing (either_prop item ''name'' ''label'')
      then None
      else Some \<lparr> df_key = the (either_prop item ''key'' ''column''),
                  df_name = the (either_prop item ''name'' ''label''),
                  df_type = either_prop item ''type'' ''dataType'',
                  df_required = spec_required item,
                  df_description = spec_description item \<rparr>)"
proof (cases "\<not> truthy item \<or> \<not> typeof_object item")
  case True
  then show ?thesis
    using primitive_missing [OF True] by (simp add: toDomainField_def)
next
  case False
  then have "toDomainField item =
      (let key = (case either_prop item ''key'' ''column'' of Some s \<Rightarrow> s | None \<Rightarrow> []);
           name = (case either_prop item ''name'' ''label'' of Some s \<Rightarrow> s | None \<Rightarrow> [])
       in if key = [] \<or> name = [] then None
          else Some \<lparr> df_key = key, df_name = name,
                   df_type = either_prop item ''type'' ''dataType'',
                   df_required = spec_required item,
                   df_description = spec_description item \<rparr>)"
    unfolding toDomainField_def either_string either_type required_prop description_prop
      spec_required_def spec_description_def
    by (simp add: Let_def)
  then show ?thesis
    by (simp add: Let_def missing_def split: option.splits)
qed

lemma extract_items_spec:
  "map the (filter (\<lambda>field. field \<noteq> None) (map toDomainField items)) = spec_extract items"
  by (induction items) (simp_all add: toDomainField_spec)

lemma toDomainFields_spec: "toDomainFields schema = spec_toDomainFields schema"
  by (cases schema)
     (simp_all add: toDomainFields_def spec_toDomainFields_def extract_items_spec
        del: not_None_eq split: option.splits json.splits)


lemma extracted_field_named:
  "f \<in> set (spec_extract items) \<Longrightarrow> df_key f \<noteq> [] \<and> df_name f \<noteq> []"
proof (induction items)
  case Nil
  then show ?case by simp
next
  case (Cons item items)
  then show ?case
    by (auto simp: missing_def split: if_splits option.splits)
qed

lemma toDomainFields_named:
  "f \<in> set (toDomainFields schema) \<Longrightarrow> df_key f \<noteq> [] \<and> df_name f \<noteq> []"
  unfolding toDomainFields_spec spec_toDomainFields_def
  by (auto dest: extracted_field_named split: json.splits option.splits)

lemma field_json_props:
  "string_prop (DomainField_json f) ''key'' = Some (df_key f)"
  "string_prop (DomainField_json f) ''name'' = Some (df_name f)"
  "string_prop (DomainField_json f) ''type'' = df_type f"
  "string_prop (DomainField_json f) ''dataType'' = None"
  "spec_required (DomainField_json f) = df_required f"
  "spec_description (DomainField_json f) = df_description f"
  by (simp_all add: string_prop_def spec_required_def spec_description_def DomainField_json_def
        split: option.splits description_value.splits)

lemma toDomainField_json:
  "df_key f \<noteq> [] \<Longrightarrow> df_name f \<noteq> [] \<Longrightarrow> toDomainField (DomainField_json f) = Some f"
  by (simp add: toDomainField_spec either_prop_def field_json_props missing_def
        split: option.splits)

lemma spec_extract_json:
  "\<forall>f \<in> set fs. df_key f \<noteq> [] \<and> df_name f \<noteq> []
     \<Longrightarrow> map the (filter (\<lambda>field. field \<noteq> None) (map toDomainField (map DomainField_json fs))) = fs"
  by (induction fs) (simp_all add: toDomainField_json)

lemma toDomainFields_json:
  "\<forall>f \<in> set fs. df_key f \<noteq> [] \<and> df_name f \<noteq> []
     \<Longrightarrow> toDomainFields (DomainSchema_json fs) = fs"
  using spec_extract_json [of fs]
  by (simp add: toDomainFields_def DomainSchema_json_def del: not_None_eq)

section \<open>Properties of the column grouping\<close>

lemma Map_get_set:
  "Map_get (Map_set m k v) k' = (if k' = k then Some v else Map_get m k')"
  by (induction m) (auto simp: Map_get_def)

lemma keys_Map_set: "map fst (Map_set m k v) = Set_add (map fst m) k"
  by (induction m) (auto simp: Set_add_def)

lemma group_after_loop:
  "(case Map_get (columnsByTable_loop m rows) t of Some l \<Rightarrow> l | None \<Rightarrow> [])
     = (case Map_get m t of Some l \<Rightarrow> l | None \<Rightarrow> [])
       @ map toColumnSchema (filter (\<lambda>r. c_tableName r = t) rows)"
proof (induction rows arbitrary: m)
  case Nil
  show ?case by simp
next
  case (Cons r rows)
  show ?case
    by (simp add: Cons.IH Map_get_set Let_def)
qed

lemma keys_after_loop:
  "map fst (columnsByTable_loop m rows) = foldl Set_add (map fst m) (map c_tableName rows)"
proof (induction rows arbitrary: m)
  case Nil
  show ?case by simp
next
  case (Cons r rows)
  show ?case
    by (simp only: columnsByTable_loop.simps Let_def Cons.IH keys_Map_set list.map foldl_Cons)
qed

lemma set_foldl_Set_add: "set (foldl Set_add acc xs) = set acc \<union> set xs"
  by (induction xs arbitrary: acc) (auto simp: Set_add_def)

lemma foldl_Set_add_acc:
  "foldl Set_add acc xs = acc @ filter (\<lambda>x. x \<notin> set acc) (foldl Set_add [] xs)"
proof (induction xs rule: rev_induct)
  case Nil
  show ?case by simp
next
  case (snoc x xs)
  have step: "foldl Set_add a (xs @ [x]) = Set_add (foldl Set_add a xs) x" for a
    by simp
  show ?case
    unfolding step
    by (subst snoc.IH) (auto simp: Set_add_def set_foldl_Set_add)
qed

lemma Array_from_Set_Cons:
  "Array_from_Set (x # xs) = x # filter (\<lambda>y. y \<noteq> x) (Array_from_Set xs)"
proof -
  have "foldl Set_add [] (x # xs) = foldl Set_add [x] xs"
    by (simp add: Set_add_def)
  then show ?thesis
    using foldl_Set_add_acc [of "[x]" xs] by (simp add: Array_from_Set_def)
qed

lemma set_Array_from_Set: "set (Array_from_Set xs) = set xs"
  by (simp add: Array_from_Set_def set_foldl_Set_add)

lemma distinct_Array_from_Set: "distinct (Array_from_Set xs)"
proof (induction xs)
  case Nil
  show ?case by (simp add: Array_from_Set_def)
next
  case (Cons x xs)
  then show ?case by (simp add: Array_from_Set_Cons)
qed

lemma entries_by_key:
  "distinct (map fst m) \<Longrightarrow> map (\<lambda>k. (k, the (map_of m k))) (map fst m) = m"
proof (induction m)
  case Nil
  show ?case by simp
next
  case (Cons p m)
  then have "map (\<lambda>k. (k, the (map_of (p # m) k))) (map fst m)
               = map (\<lambda>k. (k, the (map_of m k))) (map fst m)"
    by (intro map_cong refl) (force simp: image_iff)
  with Cons show ?case by simp
qed

lemma columnsByTable_entries:
  "columnsByTable rows =
     map (\<lambda>t. (t, map toColumnSchema (filter (\<lambda>r. c_tableName r = t) rows)))
       (Array_from_Set (map c_tableName rows))"
proof -
  let ?m = "columnsByTable rows"
  have keys: "map fst ?m = Array_from_Set (map c_tableName rows)"
    by (simp add: columnsByTable_def keys_after_loop Array_from_Set_def)
  then have "distinct (map fst ?m)"
    by (simp add: distinct_Array_from_Set)
  then have "?m = map (\<lambda>k. (k, the (map_of ?m k))) (map fst ?m)"
    by (rule entries_by_key [symmetric])
  also have "\<dots> = map (\<lambda>t. (t, map toColumnSchema (filter (\<lambda>r. c_tableName r = t) rows)))
                     (map fst ?m)"
  proof (intro map_cong refl)
    fix k assume "k \<in> set (map fst ?m)"
    then obtain l where l: "map_of ?m k = Some l"
      by (metis domIff dom_map_of_conv_image_fst not_None_eq set_map)
    have "(case Map_get ?m k of Some l \<Rightarrow> l | None \<Rightarrow> [])
            = map toColumnSchema (filter (\<lambda>r. c_tableName r = k) rows)"
      using group_after_loop [of "[]" rows k] by (simp add: columnsByTable_def Map_get_def)
    with l show "(k, the (map_of ?m k))
                   = (k, map toColumnSchema (filter (\<lambda>r. c_tableName r = k) rows))"
      by (simp add: Map_get_def)
  qed
  finally show ?thesis by (simp only: keys)
qed

lemma filter_concat_groups:
  "concat (map (\<lambda>k. filter (\<lambda>r. f r = k) xs) (filter (\<lambda>k. k \<noteq> k0) ks))
     = filter (\<lambda>r. f r \<noteq> k0) (concat (map (\<lambda>k. filter (\<lambda>r. f r = k) xs) ks))"
proof (induction ks)
  case Nil
  show ?case by simp
next
  case (Cons k ks)
  have "k = k0 \<Longrightarrow> filter (\<lambda>r. f r \<noteq> k0) (filter (\<lambda>r. f r = k) xs) = []"
    by (simp add: filter_empty_conv)
  moreover have "k \<noteq> k0 \<Longrightarrow>
      filter (\<lambda>r. f r \<noteq> k0) (filter (\<lambda>r. f r = k) xs) = filter (\<lambda>r. f r = k) xs"
    by (induction xs) auto
  ultimately show ?case using Cons by (cases "k = k0") simp_all
qed

lemma partition_adjacent:
  "list_all (\<lambda>x. f x \<noteq> k) (dropWhile (\<lambda>x. f x = k) xs)
     \<Longrightarrow> filter (\<lambda>x. f x = k) xs @ filter (\<lambda>x. f x \<noteq> k) xs = xs"
proof (induction xs)
  case Nil
  show ?case by simp
next
  case (Cons y ys)
  show ?case
  proof (cases "f y = k")
    case True
    with Cons show ?thesis by simp
  next
    case False
    with Cons.prems have all: "list_all (\<lambda>x. f x \<noteq> k) (y # ys)" by simp
    then have "filter (\<lambda>x. f x = k) (y # ys) = []"
      by (simp add: filter_empty_conv list_all_iff)
    moreover from all have "filter (\<lambda>x. f x \<noteq> k) (y # ys) = y # ys"
      by (simp add: filter_id_conv list_all_iff)
    ultimately show ?thesis by simp
  qed
qed

lemma regroup_ordered:
  "ordered_by_table rows \<Longrightarrow>
     concat (map (\<lambda>k. filter (\<lambda>r. c_tableName r = k) rows)
               (Array_from_Set (map c_tableName rows))) = rows"
proof (induction rows)
  case Nil
  show ?case by (simp add: Array_from_Set_def)
next
  case (Cons x xs)
  let ?k0 = "c_tableName x"
  let ?K = "Array_from_Set (map c_tableName xs)"
  have tail: "concat (map (\<lambda>k. filter (\<lambda>r. c_tableName r = k) xs) ?K) = xs"
    using Cons by simp
  have others:
    "map (\<lambda>k. filter (\<lambda>r. c_tableName r = k) (x # xs)) (filter (\<lambda>k. k \<noteq> ?k0) ?K)
       = map (\<lambda>k. filter (\<lambda>r. c_tableName r = k) xs) (filter (\<lambda>k. k \<noteq> ?k0) ?K)"
    by (intro map_cong) auto
  have keys: "Array_from_Set (map c_tableName (x # xs)) = ?k0 # filter (\<lambda>k. k \<noteq> ?k0) ?K"
    by (simp add: Array_from_Set_Cons)
  have "concat (map (\<lambda>k. filter (\<lambda>r. c_tableName r = k) (x # xs))
                  (Array_from_Set (map c_tableName (x # xs))))
          = filter (\<lambda>r. c_tableName r = ?k0) (x # xs)
              @ concat (map (\<lambda>k. filter (\<lambda>r. c_tableName r = k) xs)
                          (filter (\<lambda>k. k \<noteq> ?k0) ?K))"
    unfolding keys by (simp only: list.map concat.simps others)
  also have "\<dots> = x # filter (\<lambda>r. c_tableName r = ?k0) xs
              @ filter (\<lambda>r. c_tableName r \<noteq> ?k0) xs"
    by (simp add: filter_concat_groups tail)
  also have "\<dots> = x # xs"
    using Cons.prems partition_adjacent [of c_tableName ?k0 xs] by simp
  finally show ?case .
qed

lemma flatten_columnsByTable:
  "flatten_groups (columnsByTable rows) =
     map toColumnSchema
       (concat (map (\<lambda>k. filter (\<lambda>r. c_tableName r = k) rows)
                  (Array_from_Set (map c_tableName rows))))"
  by (simp add: flatten_groups_def columnsByTable_entries map_concat comp_def)

section \<open>Properties of the importer\<close>

lemma new_table_rows_length [simp]: "length (new_table_rows n now m tables) = length tables"
  by (simp add: new_table_rows_def)

lemma new_table_rows_nth:
  "i < length tables \<Longrightarrow>
     new_table_rows n now m tables ! i =
       \<lparr> tr_id = new_id (n + i), tr_name = td_name (tables ! i),
         tr_description = td_description (tables ! i), tr_schema = td_schema (tables ! i),
         tr_storageModelId = m, tr_createdAt = now, tr_updatedAt = now \<rparr>"
  by (simp add: new_table_rows_def)

lemma new_table_rows_names:
  "map tr_name (new_table_rows n now m tables) = map td_name tables"
  by (rule nth_equalityI) (simp_all add: new_table_rows_nth)

lemma tables_of_length [simp]: "length (tables_of tableRows columnRows) = length tableRows"
  by (simp add: tables_of_def)

lemma tables_of_nth:
  "i < length tableRows \<Longrightarrow>
     tables_of tableRows columnRows ! i =
       \<lparr> it_name = t_tableName (tableRows ! i),
         it_description = (if t_tableComment (tableRows ! i) = [] then None
                           else Some (t_tableComment (tableRows ! i))),
         it_columns = map toColumnSchema
                        (filter (\<lambda>r. c_tableName r = t_tableName (tableRows ! i)) columnRows) \<rparr>"
  using group_after_loop [of "[]" columnRows "t_tableName (tableRows ! i)"]
  by (simp add: tables_of_def columnsByTable_def Map_get_def)

lemma parsed_connection:
  "importSchema_parse payload = Inr data \<Longrightarrow>
     id_connection data = connectionSchema_transform (ir_connection payload)
     \<and> id_name data = ir_name payload \<and> id_description data = ir_description payload"
  by (auto simp: importSchema_parse_def Let_def split: if_splits)

lemma import_succeeds:
  assumes "importSchema_parse payload = Inr data"
    and "mysql (id_connection data) = Catalog tableRows columnRows"
    and "tableRows \<noteq> []"
  shows "\<exists>doc. POST_storage_models_import mysql s now importedAt payload =
           (Response 200 (Inr doc), imported_store s now importedAt data tableRows columnRows)"
  using assms
  by (simp add: POST_storage_models_import_def dataStorageModel_create_def Let_def
        imported_store_def)

lemma import_without_tables:
  assumes "importSchema_parse payload = Inr data"
    and "mysql (id_connection data) = Catalog [] columnRows"
  shows "POST_storage_models_import mysql s now importedAt payload =
           (Response 400 (Inl NoTablesDetected), s)"
  using assms by (simp add: POST_storage_models_import_def Let_def)

section \<open>Properties of the create routes\<close>

lemma has_row_find:
  "has_row key rows i \<Longrightarrow> \<exists>r. find (\<lambda>r. key r = i) rows = Some r \<and> key r = i"
  by (cases "find (\<lambda>r. key r = i) rows") (auto simp: has_row_def dest: find_Some_iff [THEN iffD1])

lemma join_targets_keys:
  "list_all (has_row key rows) ids \<Longrightarrow> map key (join_targets key rows ids) = ids"
proof (induction ids)
  case Nil
  show ?case by (simp add: join_targets_def)
next
  case (Cons i ids)
  from Cons.prems have "has_row key rows i" by simp
  then obtain r where "find (\<lambda>r. key r = i) rows = Some r" "key r = i"
    using has_row_find by blast
  moreover from Cons have "map key (join_targets key rows ids) = ids" by simp
  ultimately show ?case by (simp add: join_targets_def)
qed

lemma serialized_ids:
  "st_id (toStorageTable t) = tr_id (tp_row t)"
  "vm_id (toViewModel v) = vr_id (vp_row v)"
  "fm_id (toFormModel f b) = fr_id (fp_row f)"
  "om_id (toOperationModel p b) = or_id (op_row p)"
  by (simp_all add: toStorageTable_def toViewModel_def toFormModel_def toOperationModel_def
        Let_def)

lemma included_rows:
  "tp_row (include_table s t) = t"
  "vp_row (include_view_relations s v) = v"
  "fp_row (include_form_relations s f) = f"
  "op_row (include_operation_relations s p) = p"
  by (simp_all add: include_table_def include_view_relations_def include_form_relations_def
        include_operation_relations_def)






subsection \<open>Views\<close>







subsection \<open>Forms\<close>







subsection \<open>Operations\<close>

lemma POST_operation_models_201:
  "POST_operation_models s now payload = (Response 201 (Inr doc), s') \<Longrightarrow>
     \<exists>data operation detail.
       createOperationSchema_parse payload = Inr data
       \<and> dataOperationModel_create s now
            \<lparr> od_name = cod_name data, od_description = cod_description data,
              od_type = cod_type data, od_endpoint = cod_endpoint data,
              od_method = cod_method data,
              od_storageModelId = or_undefined (cod_storageModelId data),
              od_formModelId = or_undefined (cod_formModelId data),
              od_requestSchema = cod_requestSchema data,
              od_responseSchema = cod_responseSchema data \<rparr> = Inr (operation, s')
       \<and> dataOperationModel_findUnique s' (or_id operation) = Some detail
       \<and> doc = toOperationModel detail True"
  by (auto simp: POST_operation_models_def serializeDashboardData_lib_def
        split: sum.splits option.splits prod.splits)

lemma createOperationSchema_parse_Inr:
  "createOperationSchema_parse payload = Inr data \<Longrightarrow>
     data = \<lparr> cod_name = co_name payload, cod_description = co_description payload,
              cod_type = (case co_type payload of None \<Rightarrow> READ | Some t \<Rightarrow> t),
              cod_endpoint = co_endpoint payload, cod_method = co_method payload,
              cod_storageModelId = co_storageModelId payload,
              cod_formModelId = co_formModelId payload,
              cod_requestSchema = co_requestSchema payload,
              cod_responseSchema = co_responseSchema payload \<rparr>"
  by (simp add: createOperationSchema_parse_def Let_def split: if_splits)

lemma dataOperationModel_create_Inr:
  "dataOperationModel_create s now d = Inr (operation, s') \<Longrightarrow>
   operation = \<lparr> or_id = new_id (next_id s), or_name = od_name d,
                 or_description = od_description d, or_type = od_type d,
                 or_endpoint = od_endpoint d, or_method = od_method d,
                 or_storageModelId = od_storageModelId d,
                 or_formModelId = od_formModelId d,
                 or_requestSchema = json_column (od_requestSchema d),
                 or_responseSchema = json_column (od_responseSchema d),
                 or_createdAt = now, or_updatedAt = now \<rparr>
   \<and> s' = s\<lparr> operationModels_tbl := operation # operationModels_tbl s,
              next_id := Suc (next_id s) \<rparr>
   \<and> reference_ok mr_id (storageModels_tbl s) (od_storageModelId d)
   \<and> reference_ok fr_id (formModels_tbl s) (od_formModelId d)"
  by (auto simp: dataOperationModel_create_def Let_def split: if_splits)

lemma or_undefined_empty:
  "v = Null \<or> v = Value [] \<Longrightarrow> or_undefined v = None"
  by auto

lemma POST_operation_models_cong:
  assumes "or_undefined (co_storageModelId payload') = or_undefined (co_storageModelId payload)"
    and "or_undefined (co_formModelId payload') = or_undefined (co_formModelId payload)"
    and "co_name payload' = co_name payload" and "co_description payload' = co_description payload"
    and "co_type payload' = co_type payload" and "co_endpoint payload' = co_endpoint payload"
    and "co_method payload' = co_method payload"
    and "co_requestSchema payload' = co_requestSchema payload"
    and "co_responseSchema payload' = co_responseSchema payload"
  shows "POST_operation_models s now payload' = POST_operation_models s now payload"
  using assms
  by (simp add: POST_operation_models_def createOperationSchema_parse_def Let_def)

lemma POST_operation_models_created:
  assumes "POST_operation_models s now payload = (Response 201 (Inr doc), s')"
  shows "om_id doc = new_id (next_id s) \<and> om_name doc = co_name payload
           \<and> om_description doc = co_description payload
           \<and> om_type doc = (case co_type payload of None \<Rightarrow> READ | Some t \<Rightarrow> t)
           \<and> om_storageModelId doc = or_undefined (co_storageModelId payload)
           \<and> om_formModelId doc = or_undefined (co_formModelId payload)
           \<and> om_requestSchema doc = json_column (co_requestSchema payload)
           \<and> om_responseSchema doc = json_column (co_responseSchema payload)
           \<and> map_option fm_id (om_formModel doc) = or_undefined (co_formModelId payload)
           \<and> map or_id (operationModels_tbl s')
               = new_id (next_id s) # map or_id (operationModels_tbl s)
           \<and> or_storageModelId (hd (operationModels_tbl s'))
               = or_undefined (co_storageModelId payload)
           \<and> or_formModelId (hd (operationModels_tbl s'))
               = or_undefined (co_formModelId payload)"
proof -
  from POST_operation_models_201 [OF assms] obtain data operation detail
    where parse: "createOperationSchema_parse payload = Inr data"
      and create: "dataOperationModel_create s now
            \<lparr> od_name = cod_name data, od_description = cod_description data,
              od_type = cod_type data, od_endpoint = cod_endpoint data,
              od_method = cod_method data,
              od_storageModelId = or_undefined (cod_storageModelId data),
              od_formModelId = or_undefined (cod_formModelId data),
              od_requestSchema = cod_requestSchema data,
              od_responseSchema = cod_responseSchema data \<rparr> = Inr (operation, s')"
      and found: "dataOperationModel_findUnique s' (or_id operation) = Some detail"
      and doc: "doc = toOperationModel detail True"
    by blast
  note data = createOperationSchema_parse_Inr [OF parse]
  from dataOperationModel_create_Inr [OF create]
  have operation: "operation = \<lparr> or_id = new_id (next_id s), or_name = co_name payload,
                 or_description = co_description payload,
                 or_type = (case co_type payload of None \<Rightarrow> READ | Some t \<Rightarrow> t),
                 or_endpoint = co_endpoint payload, or_method = co_method payload,
                 or_storageModelId = or_undefined (co_storageModelId payload),
                 or_formModelId = or_undefined (co_formModelId payload),
                 or_requestSchema = json_column (co_requestSchema payload),
                 or_responseSchema = json_column (co_responseSchema payload),
                 or_createdAt = now, or_updatedAt = now \<rparr>"
    and s': "s' = s\<lparr> operationModels_tbl := operation # operationModels_tbl s,
                      next_id := Suc (next_id s) \<rparr>"
    and ref: "reference_ok fr_id (formModels_tbl s) (or_undefined (co_formModelId payload))"
    by (simp_all add: data)
  have forms: "formModels_tbl s' = formModels_tbl s"
    and operations: "operationModels_tbl s' = operation # operationModels_tbl s"
    by (simp_all add: s')
  have id: "or_id operation = new_id (next_id s)"
    "or_formModelId operation = or_undefined (co_formModelId payload)"
    "or_storageModelId operation = or_undefined (co_storageModelId payload)"
    by (simp_all add: operation)
  have row: "op_row detail = operation"
    using found
    by (auto simp: dataOperationModel_findUnique_def operations id
          include_operation_relations_def)
  have relation: "op_formModel detail =
      (case or_undefined (co_formModelId payload) of
         None \<Rightarrow> IsNull
       | Some i \<Rightarrow> load_relation (find (\<lambda>f. fr_id f = i) (formModels_tbl s)))"
    using found
    by (auto simp: dataOperationModel_findUnique_def operations id forms
          include_operation_relations_def split: option.splits)
  have form: "map_option fm_id (om_formModel doc) = or_undefined (co_formModelId payload)"
  proof (cases "or_undefined (co_formModelId payload)")
    case None
    then show ?thesis
      by (simp add: doc toOperationModel_def relation Let_def)
  next
    case (Some i)
    with ref have "has_row fr_id (formModels_tbl s) i"
      by (simp add: reference_ok_def)
    from has_row_find [OF this] obtain f
      where "find (\<lambda>f. fr_id f = i) (formModels_tbl s) = Some f" "fr_id f = i"
      by blast
    with Some show ?thesis
      by (simp add: doc toOperationModel_def relation load_relation_def Let_def)
  qed
  have document: "om_id doc = new_id (next_id s)" "om_name doc = co_name payload"
    "om_description doc = co_description payload"
    "om_type doc = (case co_type payload of None \<Rightarrow> READ | Some t \<Rightarrow> t)"
    "om_storageModelId doc = or_undefined (co_storageModelId payload)"
    "om_formModelId doc = or_undefined (co_formModelId payload)"
    "om_requestSchema doc = json_column (co_requestSchema payload)"
    "om_responseSchema doc = json_column (co_responseSchema payload)"
    by (simp_all add: doc toOperationModel_def row operation Let_def)
  have rows: "map or_id (operationModels_tbl s')
                = new_id (next_id s) # map or_id (operationModels_tbl s)"
    "or_storageModelId (hd (operationModels_tbl s')) = or_undefined (co_storageModelId payload)"
    "or_formModelId (hd (operationModels_tbl s')) = or_undefined (co_formModelId payload)"
    by (simp_all add: operations id)
  show ?thesis
    by (intro conjI document form rows)
qed

lemma POST_operation_models_without_references:
  assumes "co_name payload \<noteq> []"
    and "or_undefined (co_storageModelId payload) = None"
    and "or_undefined (co_formModelId payload) = None"
  shows "\<exists>doc s'. POST_operation_models s now payload = (Response 201 (Inr doc), s')"
  using assms
  by (simp add: POST_operation_models_def createOperationSchema_parse_def min1_def Let_def
        dataOperationModel_create_def reference_ok_def dataOperationModel_findUnique_def)

subsection \<open>Domains\<close>







section \<open>Claims about the domain field extraction\<close>

text \<open>
  Claim C6. Domain field extraction yields the empty list when the schema is absent or
  has no fields array; it accepts \<^verbatim>\<open>key\<close> or the legacy \<^verbatim>\<open>column\<close> as the field
  identifier and \<^verbatim>\<open>name\<close> or the legacy \<^verbatim>\<open>label\<close> as the display name; it drops
  every entry whose resolved key or name is missing; and it passes through the type
  (\<^verbatim>\<open>type\<close>, or \<^verbatim>\<open>dataType\<close> as type), \<^verbatim>\<open>required\<close> (a boolean or undefined) and
  \<^verbatim>\<open>description\<close> (a string, an explicit null or undefined) unchanged. The function of
  the code computes, on every JSON value, what the extraction worded after the
  specification computes.
\<close>

theorem toDomainFields_meets_specification:
  "toDomainFields schema = spec_toDomainFields schema"
  by (rule toDomainFields_spec)

theorem toDomainFields_meets_specification_witness:
  "toDomainFields JNull = []
   \<and> toDomainFields (JObj [(''title'', JStr ''users'')]) = []
   \<and> toDomainFields sample_schema = sample_fields"
  using toDomainFields_meets_specification [of JNull]
    toDomainFields_meets_specification [of "JObj [(''title'', JStr ''users'')]"]
    toDomainFields_meets_specification [of sample_schema]
  by (simp add: spec_toDomainFields_def sample_schema_def sample_fields_def missing_def
        either_prop_def string_prop_def spec_required_def spec_description_def)

text \<open>
  Claim C8. Domain field extraction is idempotent: extracting from the schema
  \<^verbatim>\<open>{fields: extract(s)}\<close> built from an extracted list gives that list again, for
  every schema document \<open>s\<close>.
\<close>

theorem toDomainFields_idempotent:
  "toDomainFields (DomainSchema_json (toDomainFields s)) = toDomainFields s"
  by (rule toDomainFields_json) (simp add: toDomainFields_named)

theorem toDomainFields_idempotent_witness:
  "toDomainFields (DomainSchema_json (toDomainFields sample_schema)) = sample_fields"
proof -
  have "toDomainFields sample_schema = sample_fields"
    by (simp add: toDomainFields_spec spec_toDomainFields_def sample_schema_def
          sample_fields_def missing_def either_prop_def string_prop_def spec_required_def
          spec_description_def)
  then show ?thesis
    using toDomainFields_idempotent [of sample_schema] by simp
qed

text \<open>
  Claim C9, as stated: the serialized schema of a domain is null when the stored schema
  is null or absent, and otherwise it is \<^verbatim>\<open>{fields: L}\<close> with \<open>L\<close> the extracted list.
  The stored schema \<^verbatim>\<open>0\<close> is neither null nor absent, and its serialized schema is
  null: the code tests the stored schema for truthiness
  (\<^verbatim>\<open>model.schema ? { fields } : null\<close>).
\<close>

theorem toDomainModel_schema_counterexample:
  "dr_schema (dp_row (domain_with_schema (JNum 0))) \<noteq> JNull
   \<and> dm_schema (toDomainModel (domain_with_schema (JNum 0))) = None
   \<and> dm_schema (toDomainModel (domain_with_schema (JNum 0)))
       \<noteq> Some \<lparr> ds_fields = toDomainFields (dr_schema (dp_row (domain_with_schema (JNum 0)))) \<rparr>"
  by (simp add: domain_with_schema_def toDomainModel_def Let_def)

text \<open>
  Claim C9, amended. The serialized schema of a domain is null when the stored schema is
  null, absent or another falsy JSON value (\<^verbatim>\<open>false\<close>, \<^verbatim>\<open>0\<close>, the empty string);
  otherwise it is exactly \<^verbatim>\<open>{fields: L}\<close>, where \<open>L\<close> is the extracted, normalized field
  list, so that every other property of a stored schema object is dropped. The
  \<^verbatim>\<open>fields\<close> of the document are \<open>L\<close> in both cases.
\<close>

theorem toDomainModel_schema:
  "dm_schema (toDomainModel model) =
     (if dr_schema (dp_row model) \<in> {JNull, JBool False, JNum 0, JStr []} then None
      else Some \<lparr> ds_fields = spec_toDomainFields (dr_schema (dp_row model)) \<rparr>)
   \<and> dm_fields (toDomainModel model) = spec_toDomainFields (dr_schema (dp_row model))
   \<and> (\<forall>properties. dr_schema (dp_row model) = JObj properties \<longrightarrow>
        dm_schema (toDomainModel model) =
          Some \<lparr> ds_fields = (case map_of properties ''fields'' of
                                Some (JArr items) \<Rightarrow> spec_extract items
                              | _ \<Rightarrow> []) \<rparr>)"
  by (cases "dr_schema (dp_row model)")
     (simp_all add: toDomainModel_def toDomainFields_spec spec_toDomainFields_def Let_def)

theorem toDomainModel_schema_witness:
  "dm_schema (toDomainModel (domain_with_schema sample_schema))
     = Some \<lparr> ds_fields = sample_fields \<rparr>
   \<and> dm_fields (toDomainModel (domain_with_schema sample_schema)) = sample_fields
   \<and> dm_schema (toDomainModel (domain_with_schema JNull)) = None
   \<and> dm_schema (toDomainModel (domain_with_schema (JStr []))) = None"
  using toDomainModel_schema [of "domain_with_schema sample_schema"]
    toDomainModel_schema [of "domain_with_schema JNull"]
    toDomainModel_schema [of "domain_with_schema (JStr [])"]
  by (simp add: domain_with_schema_def spec_toDomainFields_def sample_schema_def
        sample_fields_def missing_def either_prop_def string_prop_def spec_required_def
        spec_description_def)

section \<open>Claims about the column grouping\<close>

text \<open>
  Claim C4. For every list of column rows returned by the catalog column query (ordered
  by table name, then ordinal position), grouping the rows by owning table name and
  re-flattening the groups reproduces the original per-table column order. The group of
  every table holds the columns of exactly its rows, in the order of the rows; and when
  the rows of each table are adjacent, as the query orders them, the groups in the
  iteration order of the map spell out the whole column list again.
\<close>

theorem grouping_keeps_column_order:
  "(case Map_get (columnsByTable columnRows) t of Some columns \<Rightarrow> columns | None \<Rightarrow> [])
     = map toColumnSchema (filter (\<lambda>r. c_tableName r = t) columnRows)
   \<and> (ordered_by_table columnRows \<longrightarrow>
        flatten_groups (columnsByTable columnRows) = map toColumnSchema columnRows)"
proof
  show "(case Map_get (columnsByTable columnRows) t of Some columns \<Rightarrow> columns | None \<Rightarrow> [])
          = map toColumnSchema (filter (\<lambda>r. c_tableName r = t) columnRows)"
    using group_after_loop [of "[]" columnRows t]
    by (simp add: columnsByTable_def Map_get_def)
next
  show "ordered_by_table columnRows \<longrightarrow>
          flatten_groups (columnsByTable columnRows) = map toColumnSchema columnRows"
    by (simp add: flatten_columnsByTable regroup_ordered)
qed

theorem grouping_keeps_column_order_witness:
  "ordered_by_table sample_columns
   \<and> flatten_groups (columnsByTable sample_columns) = map toColumnSchema sample_columns
   \<and> map cs_name (case Map_get (columnsByTable sample_columns) ''users'' of
                     Some columns \<Rightarrow> columns | None \<Rightarrow> [])
       = [''id'', ''name'', ''email'']"
proof -
  have ordered: "ordered_by_table sample_columns"
    by (simp add: sample_columns_def column_of_def)
  moreover have "filter (\<lambda>r. c_tableName r = ''users'') sample_columns
                   = [column_of ''users'' ''id'' ''int'' ''PRI'',
                      column_of ''users'' ''name'' ''varchar(64)'' [],
                      column_of ''users'' ''email'' ''varchar(128)'' ''UNI'']"
    by (simp add: sample_columns_def column_of_def)
  ultimately show ?thesis
    using grouping_keeps_column_order [of sample_columns "''users''"]
    by (simp add: toColumnSchema_def column_of_def)
qed

section \<open>Claims about the importer\<close>

text \<open>
  Claim C1. For every valid import request, the number of persisted StorageTables equals
  the number of distinct table names returned by the catalog table query, and a table
  with zero columns is still imported with an empty columns array. A successful import
  puts one table row in front of the table store for every row of the table query, in
  the order and with the names of those rows, linked to the new model and holding the
  columns of that table; this is the number of distinct table names, the catalog
  listing each table of the schema once; a table without column rows is stored with
  \<^verbatim>\<open>{columns: []}\<close>.
\<close>

theorem import_persists_every_table:
  assumes "importSchema_parse payload = Inr data"
    and "mysql (id_connection data) = Catalog tableRows columnRows"
    and "tableRows \<noteq> []"
    and "POST_storage_models_import mysql s now importedAt payload = (response, s')"
  shows "status response = 200
    \<and> length (storageTables_tbl s') = length (storageTables_tbl s) + length tableRows
    \<and> drop (length tableRows) (storageTables_tbl s') = storageTables_tbl s
    \<and> map tr_name (take (length tableRows) (storageTables_tbl s')) = map t_tableName tableRows
    \<and> (distinct (map t_tableName tableRows) \<longrightarrow>
          length (storageTables_tbl s') - length (storageTables_tbl s)
            = card (t_tableName ` set tableRows))
    \<and> (\<forall>i < length tableRows.
          tr_storageModelId (storageTables_tbl s' ! i) = mr_id (hd (storageModels_tbl s'))
          \<and> tr_schema (storageTables_tbl s' ! i)
              = table_schema_json
                  (map toColumnSchema
                     (filter (\<lambda>c. c_tableName c = t_tableName (tableRows ! i)) columnRows))
          \<and> ((\<forall>c \<in> set columnRows. c_tableName c \<noteq> t_tableName (tableRows ! i)) \<longrightarrow>
                tr_schema (storageTables_tbl s' ! i) = JObj [(''columns'', JArr [])]))"
proof -
  define tables where
    "tables = map (\<lambda>table. \<lparr> td_name = it_name table,
                                 td_description = nonempty_or_undefined (it_description table),
                                 td_schema = table_schema_json (it_columns table) \<rparr>)
                (tables_of tableRows columnRows)"
  define new where "new = new_table_rows (Suc (next_id s)) now (new_id (next_id s)) tables"
  from import_succeeds [where mysql = mysql, OF assms(1-3), of s now importedAt] assms(4)
  have response: "status response = 200"
    and s': "s' = imported_store s now importedAt data tableRows columnRows"
    by auto
  have tbl: "storageTables_tbl s' = new @ storageTables_tbl s"
    by (simp add: s' imported_store_def new_def tables_def)
  have len: "length new = length tableRows"
    by (simp add: new_def tables_def)
  have names: "map tr_name new = map t_tableName tableRows"
    by (simp add: new_def tables_def new_table_rows_names tables_of_def comp_def)
  have model: "mr_id (hd (storageModels_tbl s')) = new_id (next_id s)"
    by (simp add: s' imported_store_def)
  have schema: "tr_schema (new ! i)
                  = table_schema_json
                      (map toColumnSchema
                         (filter (\<lambda>c. c_tableName c = t_tableName (tableRows ! i)) columnRows))"
    and link: "tr_storageModelId (new ! i) = new_id (next_id s)"
    if "i < length tableRows" for i
    using that by (simp_all add: new_def tables_def new_table_rows_nth tables_of_nth)
  have empty: "tr_schema (new ! i) = JObj [(''columns'', JArr [])]"
    if "i < length tableRows"
      and "\<forall>c \<in> set columnRows. c_tableName c \<noteq> t_tableName (tableRows ! i)" for i
  proof -
    from that(2)
    have "filter (\<lambda>c. c_tableName c = t_tableName (tableRows ! i)) columnRows = []"
      by (simp add: filter_empty_conv)
    with schema [OF that(1)] show ?thesis
      by (simp add: table_schema_json_def)
  qed
  have count: "distinct (map t_tableName tableRows) \<longrightarrow>
                 length (storageTables_tbl s') - length (storageTables_tbl s)
                   = card (t_tableName ` set tableRows)"
    using distinct_card [of "map t_tableName tableRows"] by (simp add: tbl len)
  have rows: "\<forall>i < length tableRows.
          tr_storageModelId (storageTables_tbl s' ! i) = mr_id (hd (storageModels_tbl s'))
          \<and> tr_schema (storageTables_tbl s' ! i)
              = table_schema_json
                  (map toColumnSchema
                     (filter (\<lambda>c. c_tableName c = t_tableName (tableRows ! i)) columnRows))
          \<and> ((\<forall>c \<in> set columnRows. c_tableName c \<noteq> t_tableName (tableRows ! i)) \<longrightarrow>
                tr_schema (storageTables_tbl s' ! i) = JObj [(''columns'', JArr [])])"
    by (simp add: tbl nth_append len schema link model empty table_schema_json_def)
  have "length (storageTables_tbl s') = length (storageTables_tbl s) + length tableRows"
    and "drop (length tableRows) (storageTables_tbl s') = storageTables_tbl s"
    and "map tr_name (take (length tableRows) (storageTables_tbl s')) = map t_tableName tableRows"
    by (simp_all add: tbl len names)
  with response count rows show ?thesis
    by blast
qed

theorem import_persists_every_table_witness:
  "importSchema_parse sample_import = Inr sample_import_data
   \<and> sample_database (id_connection sample_import_data) = Catalog sample_tables sample_columns
   \<and> distinct (map t_tableName sample_tables)
   \<and> filter (\<lambda>c. c_tableName c = t_tableName (sample_tables ! 0)) sample_columns = []
   \<and> status (fst (POST_storage_models_import sample_database empty_store 0
                     ''2025-01-01T00:00:00.000Z'' sample_import)) = 200
   \<and> map tr_name (storageTables_tbl (snd (POST_storage_models_import sample_database
                     empty_store 0 ''2025-01-01T00:00:00.000Z'' sample_import)))
       = [''audit'', ''orders'', ''users'']
   \<and> tr_schema (storageTables_tbl (snd (POST_storage_models_import sample_database
                     empty_store 0 ''2025-01-01T00:00:00.000Z'' sample_import)) ! 0)
       = JObj [(''columns'', JArr [])]"
proof -
  let ?post = "POST_storage_models_import sample_database empty_store 0
                 ''2025-01-01T00:00:00.000Z'' sample_import"
  have parse: "importSchema_parse sample_import = Inr sample_import_data"
    by (simp add: importSchema_parse_def sample_import_def sample_import_data_def
          connectionSchema_transform_def min1_def)
  have db: "sample_database (id_connection sample_import_data)
              = Catalog sample_tables sample_columns"
    by (simp add: sample_database_def)
  have tables: "sample_tables \<noteq> []" "length sample_tables = 3"
    "map t_tableName sample_tables = [''audit'', ''orders'', ''users'']"
    by (simp_all add: sample_tables_def)
  have none: "\<forall>c \<in> set sample_columns. c_tableName c \<noteq> t_tableName (sample_tables ! 0)"
    by (simp add: sample_columns_def sample_tables_def column_of_def)
  have store: "storageTables_tbl empty_store = []"
    by (simp add: empty_store_def)
  note main = import_persists_every_table [where mysql = sample_database,
      OF parse db tables(1) prod.collapse [symmetric], of empty_store 0
      "''2025-01-01T00:00:00.000Z''"]
  from main have ok: "status (fst ?post) = 200"
    by blast
  from main
  have "length (storageTables_tbl (snd ?post))
          = length (storageTables_tbl empty_store) + length sample_tables"
    and "map tr_name (take (length sample_tables) (storageTables_tbl (snd ?post)))
          = map t_tableName sample_tables"
    by blast+
  then have "length (storageTables_tbl (snd ?post)) = 3"
    and "map tr_name (take 3 (storageTables_tbl (snd ?post))) = [''audit'', ''orders'', ''users'']"
    by (simp_all add: tables store)
  then have names: "map tr_name (storageTables_tbl (snd ?post)) = [''audit'', ''orders'', ''users'']"
    by simp
  from main have "\<forall>i < length sample_tables.
      (\<forall>c \<in> set sample_columns. c_tableName c \<noteq> t_tableName (sample_tables ! i)) \<longrightarrow>
        tr_schema (storageTables_tbl (snd ?post) ! i) = JObj [(''columns'', JArr [])]"
    by blast
  with none have "tr_schema (storageTables_tbl (snd ?post) ! 0) = JObj [(''columns'', JArr [])]"
    by (simp add: tables)
  moreover have "filter (\<lambda>c. c_tableName c = t_tableName (sample_tables ! 0)) sample_columns = []"
    using none by (simp add: filter_empty_conv)
  ultimately show ?thesis
    using parse db ok names by (simp add: tables)
qed

text \<open>
  Claim C2, as stated: if the catalog table query returns zero rows, the import always
  fails with the fixed "no tables" error at status 400. The handler counts the table
  rows after the column query has run: for a schema without tables whose column query
  throws, the request is answered with status 500 and the message of the thrown error.
\<close>

theorem import_without_tables_counterexample:
  "importSchema_parse sample_import = Inr sample_import_data
   \<and> failing_database (id_connection sample_import_data)
       = ColumnQueryError [] ''Connection lost''
   \<and> POST_storage_models_import failing_database empty_store 0 ''2025-01-01T00:00:00.000Z''
         sample_import
       = (Response 500 (Inl (UpstreamError ''Connection lost'')), empty_store)
   \<and> fst (POST_storage_models_import failing_database empty_store 0
              ''2025-01-01T00:00:00.000Z'' sample_import)
       \<noteq> Response 400 (Inl NoTablesDetected)"
proof -
  have parse: "importSchema_parse sample_import = Inr sample_import_data"
    by (simp add: importSchema_parse_def sample_import_def sample_import_data_def
          connectionSchema_transform_def min1_def)
  have db: "failing_database (id_connection sample_import_data)
              = ColumnQueryError [] ''Connection lost''"
    by (simp add: failing_database_def)
  have "POST_storage_models_import failing_database empty_store 0 ''2025-01-01T00:00:00.000Z''
          sample_import
        = (Response 500 (Inl (UpstreamError ''Connection lost'')), empty_store)"
    by (simp add: POST_storage_models_import_def parse db Let_def)
  with parse db show ?thesis
    by simp
qed

text \<open>
  Claim C2, amended. If the catalog table query for an import request returns zero rows,
  the import fails, is not retried and persists nothing: the store is returned as it
  was, without a new StorageModel or StorageTable row, and the one connection made for
  the request decides the answer, whatever a later connection would find. The failure
  is the fixed "no tables" error at status 400 when the column query, which the handler
  runs before it counts the table rows, returns its rows; it is status 500 with the
  message of the thrown error when the column query throws.
\<close>

theorem import_without_table_rows_fails:
  assumes "importSchema_parse payload = Inr data"
  shows "(answers db (connections db) (id_connection data) = Catalog [] columnRows \<longrightarrow>
            import_from db s now importedAt payload
              = ((Response 400 (Inl NoTablesDetected), s),
                 db\<lparr> connections := Suc (connections db) \<rparr>))
    \<and> (answers db (connections db) (id_connection data) = ColumnQueryError [] message \<longrightarrow>
            import_from db s now importedAt payload
              = ((Response 500 (Inl (UpstreamError message)), s),
                 db\<lparr> connections := Suc (connections db) \<rparr>))"
proof (intro conjI impI)
  assume "answers db (connections db) (id_connection data) = Catalog [] columnRows"
  with assms have "POST_storage_models_import (answers db (connections db)) s now importedAt
                     payload = (Response 400 (Inl NoTablesDetected), s)"
    by (rule import_without_tables)
  with assms show "import_from db s now importedAt payload
              = ((Response 400 (Inl NoTablesDetected), s),
                 db\<lparr> connections := Suc (connections db) \<rparr>)"
    by (simp add: import_from_def)
next
  assume "answers db (connections db) (id_connection data) = ColumnQueryError [] message"
  with assms have "POST_storage_models_import (answers db (connections db)) s now importedAt
                     payload = (Response 500 (Inl (UpstreamError message)), s)"
    by (simp add: POST_storage_models_import_def Let_def)
  with assms show "import_from db s now importedAt payload
              = ((Response 500 (Inl (UpstreamError message)), s),
                 db\<lparr> connections := Suc (connections db) \<rparr>)"
    by (simp add: import_from_def)
qed

theorem import_without_table_rows_fails_witness:
  "importSchema_parse sample_import = Inr sample_import_data
   \<and> answers growing_database 0 (id_connection sample_import_data) = Catalog [] []
   \<and> answers growing_database 1 (id_connection sample_import_data)
       = Catalog sample_tables sample_columns
   \<and> import_from growing_database empty_store 0 ''2025-01-01T00:00:00.000Z'' sample_import
       = ((Response 400 (Inl NoTablesDetected), empty_store),
          growing_database\<lparr> connections := 1 \<rparr>)
   \<and> import_from \<lparr> answers = (\<lambda>n. failing_database), connections = 0 \<rparr> empty_store 0
         ''2025-01-01T00:00:00.000Z'' sample_import
       = ((Response 500 (Inl (UpstreamError ''Connection lost'')), empty_store),
          \<lparr> answers = (\<lambda>n. failing_database), connections = 1 \<rparr>)"
proof -
  have parse: "importSchema_parse sample_import = Inr sample_import_data"
    by (simp add: importSchema_parse_def sample_import_def sample_import_data_def
          connectionSchema_transform_def min1_def)
  have first: "answers growing_database (connections growing_database)
                 (id_connection sample_import_data) = Catalog [] []"
    and start: "connections growing_database = 0"
    and later: "answers growing_database 1 (id_connection sample_import_data)
                  = Catalog sample_tables sample_columns"
    by (simp_all add: growing_database_def empty_database_def sample_database_def)
  have lost: "answers \<lparr> answers = (\<lambda>n. failing_database), connections = 0 \<rparr>
                (connections \<lparr> answers = (\<lambda>n. failing_database), connections = 0 \<rparr>)
                (id_connection sample_import_data) = ColumnQueryError [] ''Connection lost''"
    by (simp add: failing_database_def)
  from import_without_table_rows_fails [OF parse, of growing_database "[]" empty_store 0
      "''2025-01-01T00:00:00.000Z''"] first
  have empty: "import_from growing_database empty_store 0 ''2025-01-01T00:00:00.000Z''
                 sample_import
               = ((Response 400 (Inl NoTablesDetected), empty_store),
                  growing_database\<lparr> connections := 1 \<rparr>)"
    by (simp add: start)
  from import_without_table_rows_fails [OF parse,
      of "\<lparr> answers = (\<lambda>n. failing_database), connections = 0 \<rparr>" _ empty_store 0
      "''2025-01-01T00:00:00.000Z''" "''Connection lost''"] lost
  have thrown: "import_from \<lparr> answers = (\<lambda>n. failing_database), connections = 0 \<rparr> empty_store 0
         ''2025-01-01T00:00:00.000Z'' sample_import
       = ((Response 500 (Inl (UpstreamError ''Connection lost'')), empty_store),
          \<lparr> answers = (\<lambda>n. failing_database), connections = 1 \<rparr>)"
    by simp
  from parse first later empty thrown show ?thesis
    by (simp add: start)
qed

text \<open>
  Claim C3, as stated: the persisted connection field never contains the submitted
  password as a substring. A request whose password is the user name \<^verbatim>\<open>admin\<close>
  persists \<^verbatim>\<open>mysql://admin@localhost:3306/shop\<close>, which contains it.
\<close>

theorem connection_contains_password_counterexample:
  "ci_password (ir_connection sample_import) = Some ''admin''
   \<and> mr_connection (hd (storageModels_tbl (snd (POST_storage_models_import sample_database
        empty_store 0 ''2025-01-01T00:00:00.000Z'' sample_import))))
       = Some ''mysql://admin@localhost:3306/shop''
   \<and> sublist ''admin'' ''mysql://admin@localhost:3306/shop''"
proof -
  have parse: "importSchema_parse sample_import = Inr sample_import_data"
    by (simp add: importSchema_parse_def sample_import_def sample_import_data_def
          connectionSchema_transform_def min1_def)
  have db: "sample_database (id_connection sample_import_data)
              = Catalog sample_tables sample_columns"
    by (simp add: sample_database_def)
  have tables: "sample_tables \<noteq> []"
    by (simp add: sample_tables_def)
  have descriptor: "connection_descriptor ''admin'' ''localhost'' 3306 ''shop''
                      = ''mysql://admin@localhost:3306/shop''"
    by (simp add: connection_descriptor_def encodeURIComponent_def unreserved_def
          show_nat.simps digit_char_def)
  from import_succeeds [where mysql = sample_database, OF parse db tables, of empty_store 0
      "''2025-01-01T00:00:00.000Z''"]
  have "mr_connection (hd (storageModels_tbl (snd (POST_storage_models_import sample_database
          empty_store 0 ''2025-01-01T00:00:00.000Z'' sample_import))))
          = Some ''mysql://admin@localhost:3306/shop''"
    by (auto simp: imported_store_def sample_import_data_def descriptor)
  moreover have "sublist ''admin'' ''mysql://admin@localhost:3306/shop''"
    unfolding sublist_def
    by (rule exI [of _ "''mysql://''"], rule exI [of _ "''@localhost:3306/shop''"]) simp
  ultimately show ?thesis
    by (simp add: sample_import_def)
qed

text \<open>
  Claim C3, amended. For every successful import, the persisted connection field is the
  descriptive string built from the user, host, port and database of the request only:
  the password is not written into it, and a request that differs only in its
  password, for which the database gives the same answer, leaves the same store and
  the same response. The field contains the password exactly where the text built from
  those four parts contains it.
\<close>

theorem connection_descriptor_without_password:
  assumes "importSchema_parse payload = Inr data"
    and "mysql (id_connection data) = Catalog tableRows columnRows"
    and "tableRows \<noteq> []"
    and "POST_storage_models_import mysql s now importedAt payload = (response, s')"
  shows "mr_connection (hd (storageModels_tbl s'))
           = Some (connection_descriptor (ci_user (ir_connection payload))
                     (ci_host (ir_connection payload)) (cc_port (id_connection data))
                     (ci_database (ir_connection payload)))
    \<and> (\<forall>p. mysql ((id_connection data)\<lparr> cc_password := (case p of Some x \<Rightarrow> x | None \<Rightarrow> []) \<rparr>)
               = mysql (id_connection data) \<longrightarrow>
             POST_storage_models_import mysql s now importedAt
               (payload\<lparr> ir_connection := (ir_connection payload)\<lparr> ci_password := p \<rparr> \<rparr>)
               = (response, s'))"
proof
  from import_succeeds [where mysql = mysql, OF assms(1-3), of s now importedAt] assms(4)
  have s': "s' = imported_store s now importedAt data tableRows columnRows"
    by auto
  from parsed_connection [OF assms(1)]
  show "mr_connection (hd (storageModels_tbl s'))
          = Some (connection_descriptor (ci_user (ir_connection payload))
                    (ci_host (ir_connection payload)) (cc_port (id_connection data))
                    (ci_database (ir_connection payload)))"
    by (simp add: s' imported_store_def connectionSchema_transform_def Let_def)
next
  show "\<forall>p. mysql ((id_connection data)\<lparr> cc_password := (case p of Some x \<Rightarrow> x | None \<Rightarrow> []) \<rparr>)
               = mysql (id_connection data) \<longrightarrow>
             POST_storage_models_import mysql s now importedAt
               (payload\<lparr> ir_connection := (ir_connection payload)\<lparr> ci_password := p \<rparr> \<rparr>)
               = (response, s')"
  proof (intro allI impI)
    fix p
    let ?payload = "payload\<lparr> ir_connection := (ir_connection payload)\<lparr> ci_password := p \<rparr> \<rparr>"
    let ?data = "data\<lparr> id_connection :=
                   (id_connection data)\<lparr> cc_password := (case p of Some x \<Rightarrow> x | None \<Rightarrow> []) \<rparr> \<rparr>"
    assume same: "mysql ((id_connection data)\<lparr> cc_password := (case p of Some x \<Rightarrow> x | None \<Rightarrow> []) \<rparr>)
                    = mysql (id_connection data)"
    have parse: "importSchema_parse ?payload = Inr ?data"
      using assms(1)
      by (auto simp: importSchema_parse_def connectionSchema_transform_def Let_def
            split: if_splits)
    have db: "mysql (id_connection ?data) = Catalog tableRows columnRows"
      using same assms(2) by simp
    have "imported_store s now importedAt ?data tableRows columnRows
            = imported_store s now importedAt data tableRows columnRows"
      by (simp add: imported_store_def)
    moreover have "POST_storage_models_import mysql s now importedAt ?payload
                     = POST_storage_models_import mysql s now importedAt payload"
      using parse db assms(1-3)
      by (simp add: POST_storage_models_import_def dataStorageModel_create_def Let_def)
    ultimately show "POST_storage_models_import mysql s now importedAt ?payload = (response, s')"
      using assms(4) by simp
  qed
qed

theorem connection_descriptor_without_password_witness:
  "importSchema_parse sample_import = Inr sample_import_data
   \<and> sample_database (id_connection sample_import_data) = Catalog sample_tables sample_columns
   \<and> sample_tables \<noteq> []
   \<and> mr_connection (hd (storageModels_tbl (snd (POST_storage_models_import sample_database
        empty_store 0 ''2025-01-01T00:00:00.000Z'' sample_import))))
       = Some (connection_descriptor ''admin'' ''localhost'' 3306 ''shop'')
   \<and> POST_storage_models_import sample_database empty_store 0 ''2025-01-01T00:00:00.000Z''
        (sample_import\<lparr> ir_connection := (ir_connection sample_import)\<lparr> ci_password := Some ''secret'' \<rparr> \<rparr>)
       = POST_storage_models_import sample_database empty_store 0 ''2025-01-01T00:00:00.000Z''
           sample_import"
proof -
  let ?post = "POST_storage_models_import sample_database empty_store 0
                 ''2025-01-01T00:00:00.000Z'' sample_import"
  have parse: "importSchema_parse sample_import = Inr sample_import_data"
    by (simp add: importSchema_parse_def sample_import_def sample_import_data_def
          connectionSchema_transform_def min1_def)
  have db: "sample_database (id_connection sample_import_data)
              = Catalog sample_tables sample_columns"
    by (simp add: sample_database_def)
  have tables: "sample_tables \<noteq> []"
    by (simp add: sample_tables_def)
  from connection_descriptor_without_password [where mysql = sample_database, OF parse db tables, of empty_store 0
      "''2025-01-01T00:00:00.000Z''" "fst ?post" "snd ?post"]
  have "mr_connection (hd (storageModels_tbl (snd ?post)))
          = Some (connection_descriptor ''admin'' ''localhost'' 3306 ''shop'')"
    and "\<forall>p. POST_storage_models_import sample_database empty_store 0
               ''2025-01-01T00:00:00.000Z''
               (sample_import\<lparr> ir_connection := (ir_connection sample_import)\<lparr> ci_password := p \<rparr> \<rparr>)
             = ?post"
    by (simp_all add: sample_database_def sample_import_def sample_import_data_def)
  with parse db tables show ?thesis
    by simp
qed

section \<open>Claims about the serializer\<close>

text \<open>
  Claim C7. The serializer is total: serializing any well-typed input never throws when
  optional relations are absent or null (they are rendered as omitted, as an empty
  array or as null), and whenever a \<^verbatim>\<open>storageTable\<close> back-reference is serialized
  inside a ViewModel or FormModel, its \<^verbatim>\<open>forms\<close> and \<^verbatim>\<open>views\<close> are rendered as
  empty arrays. Every function of the serializer yields a document for every loaded
  row: a relation that was not loaded or is null is omitted, a loaded table becomes a
  back-reference with the columns of the table row and empty \<^verbatim>\<open>forms\<close> and
  \<^verbatim>\<open>views\<close>, nested documents do not nest further, and the dashboard has one
  document for each row it is given.
\<close>

theorem serializer_total_on_optional_relations:
  "(vp_storageTable v = NotIncluded \<or> vp_storageTable v = IsNull \<longrightarrow>
      vm_storageTable (toViewModel v) = None)
   \<and> (\<forall>t. vp_storageTable v = Loaded t \<longrightarrow>
         (\<exists>d. vm_storageTable (toViewModel v) = Some d \<and> st_forms d = [] \<and> st_views d = []
              \<and> st_id d = tr_id t \<and> st_name d = tr_name t \<and> st_schema d = tr_schema t
              \<and> st_storageModelId d = tr_storageModelId t))
   \<and> (fp_storageTable f = NotIncluded \<or> fp_storageTable f = IsNull \<longrightarrow>
         fm_storageTable (toFormModel f includeOperations) = None)
   \<and> (\<forall>t. fp_storageTable f = Loaded t \<longrightarrow>
         (\<exists>d. fm_storageTable (toFormModel f includeOperations) = Some d
              \<and> st_forms d = [] \<and> st_views d = []
              \<and> st_id d = tr_id t \<and> st_name d = tr_name t \<and> st_schema d = tr_schema t
              \<and> st_storageModelId d = tr_storageModelId t))
   \<and> (fp_operations f = None \<or> \<not> includeOperations \<longrightarrow>
         fm_operations (toFormModel f includeOperations) = None)
   \<and> (\<forall>operations. fp_operations f = Some operations \<and> includeOperations \<longrightarrow>
         (\<exists>docs. fm_operations (toFormModel f includeOperations) = Some docs
                 \<and> length docs = length operations
                 \<and> (\<forall>d \<in> set docs. om_formModel d = None)))
   \<and> (op_formModel p = NotIncluded \<or> op_formModel p = IsNull \<or> \<not> includeForm \<longrightarrow>
         om_formModel (toOperationModel p includeForm) = None)
   \<and> (\<forall>r. op_formModel p = Loaded r \<and> includeForm \<longrightarrow>
         (\<exists>d. om_formModel (toOperationModel p includeForm) = Some d
              \<and> fm_id d = fr_id r \<and> fm_operations d = None \<and> fm_storageTable d = None))
   \<and> length (dd_storageModels (serializeDashboardData ms vs fs ps ds)) = length ms
   \<and> length (dd_viewModels (serializeDashboardData ms vs fs ps ds)) = length vs
   \<and> length (dd_formModels (serializeDashboardData ms vs fs ps ds)) = length fs
   \<and> length (dd_operationModels (serializeDashboardData ms vs fs ps ds)) = length ps
   \<and> length (dd_domainModels (serializeDashboardData ms vs fs ps ds)) = length ds"
proof -
  have view: "vm_storageTable (toViewModel v)
                = (case vp_storageTable v of Loaded t \<Rightarrow> Some (storageTable_backref t)
                   | _ \<Rightarrow> None)"
    by (simp add: toViewModel_def Let_def)
  have form: "fm_storageTable (toFormModel f includeOperations)
                = (case fp_storageTable f of Loaded t \<Rightarrow> Some (storageTable_backref t)
                   | _ \<Rightarrow> None)"
    by (simp add: toFormModel_def Let_def)
  have operations: "fm_operations (toFormModel f includeOperations)
                = (if includeOperations
                   then map_option (map (\<lambda>operation. toOperationModel operation False))
                          (fp_operations f)
                   else None)"
    by (simp add: toFormModel_def Let_def split: option.splits)
  have nested: "om_formModel (toOperationModel operation False) = None" for operation
    by (simp add: toOperationModel_def Let_def)
  have operation: "om_formModel (toOperationModel p includeForm)
                = (if includeForm
                   then (case op_formModel p of
                           Loaded r \<Rightarrow>
                             Some (FormModel (fr_id r) (fr_name r) (fr_description r)
                                     (fr_schema r) (fr_storageTableId r) (fr_createdAt r)
                                     (fr_updatedAt r) None None)
                         | _ \<Rightarrow> None)
                   else None)"
    by (simp add: toOperationModel_def Let_def)
  show ?thesis
    unfolding view form operations operation
    by (auto simp: storageTable_backref_def serializeDashboardData_def nested)
qed

theorem serializer_total_on_optional_relations_witness:
  "vp_storageTable sample_view = Loaded sample_table
   \<and> (\<exists>d. vm_storageTable (toViewModel sample_view) = Some d \<and> st_forms d = []
           \<and> st_views d = [] \<and> st_id d = ''t1'')
   \<and> fp_storageTable sample_form = IsNull
   \<and> fm_storageTable (toFormModel sample_form True) = None
   \<and> fp_operations sample_form = None
   \<and> fm_operations (toFormModel sample_form True) = None
   \<and> op_formModel sample_operation = NotIncluded
   \<and> om_formModel (toOperationModel sample_operation True) = None
   \<and> length (dd_viewModels (serializeDashboardData [] [sample_view] [sample_form]
                               [sample_operation] [])) = 1"
proof -
  have given: "vp_storageTable sample_view = Loaded sample_table"
    "fp_storageTable sample_form = IsNull" "fp_operations sample_form = None"
    "op_formModel sample_operation = NotIncluded" "tr_id sample_table = ''t1''"
    by (simp_all add: sample_view_def sample_form_def sample_operation_def sample_table_def)
  from serializer_total_on_optional_relations [of sample_view sample_form True
      sample_operation True "[]" "[sample_view]" "[sample_form]" "[sample_operation]" "[]"]
  show ?thesis
    by (auto simp: given)
qed

section \<open>Claims about the create routes\<close>

text \<open>
  Claim C10. If a create-operation request passes validation with \<^verbatim>\<open>storageModelId\<close>
  or \<^verbatim>\<open>formModelId\<close> equal to the empty string or null, the operation is persisted
  with that reference absent, exactly as if the field had been omitted, and no lookup of
  a referenced row is made for it: the handler gives the same response and store as for
  the request without the field, the persisted row and the document have no such
  reference, and when both references are empty the create succeeds in every store,
  also one without any storage model or form.
\<close>

theorem empty_reference_is_absent:
  "(co_storageModelId payload = Null \<or> co_storageModelId payload = Value [] \<longrightarrow>
      POST_operation_models s now payload
        = POST_operation_models s now (payload\<lparr> co_storageModelId := Undefined \<rparr>)
      \<and> (\<forall>doc s'. POST_operation_models s now payload = (Response 201 (Inr doc), s') \<longrightarrow>
             or_storageModelId (hd (operationModels_tbl s')) = None
             \<and> om_storageModelId doc = None))
   \<and> (co_formModelId payload = Null \<or> co_formModelId payload = Value [] \<longrightarrow>
        POST_operation_models s now payload
          = POST_operation_models s now (payload\<lparr> co_formModelId := Undefined \<rparr>)
        \<and> (\<forall>doc s'. POST_operation_models s now payload = (Response 201 (Inr doc), s') \<longrightarrow>
               or_formModelId (hd (operationModels_tbl s')) = None
               \<and> om_formModelId doc = None \<and> om_formModel doc = None))
   \<and> (co_name payload \<noteq> []
        \<and> (co_storageModelId payload = Null \<or> co_storageModelId payload = Value [])
        \<and> (co_formModelId payload = Null \<or> co_formModelId payload = Value []) \<longrightarrow>
          (\<exists>doc s'. POST_operation_models s now payload = (Response 201 (Inr doc), s')))"
proof (intro conjI impI allI)
  assume "co_storageModelId payload = Null \<or> co_storageModelId payload = Value []"
  then have none: "or_undefined (co_storageModelId payload) = None"
    by (rule or_undefined_empty)
  show "POST_operation_models s now payload
          = POST_operation_models s now (payload\<lparr> co_storageModelId := Undefined \<rparr>)"
    by (rule POST_operation_models_cong [symmetric]) (simp_all add: none)
  fix doc s'
  assume "POST_operation_models s now payload = (Response 201 (Inr doc), s')"
  from POST_operation_models_created [OF this] none
  show "or_storageModelId (hd (operationModels_tbl s')) = None"
    and "om_storageModelId doc = None"
    by simp_all
next
  assume "co_formModelId payload = Null \<or> co_formModelId payload = Value []"
  then have none: "or_undefined (co_formModelId payload) = None"
    by (rule or_undefined_empty)
  show "POST_operation_models s now payload
          = POST_operation_models s now (payload\<lparr> co_formModelId := Undefined \<rparr>)"
    by (rule POST_operation_models_cong [symmetric]) (simp_all add: none)
  fix doc s'
  assume "POST_operation_models s now payload = (Response 201 (Inr doc), s')"
  from POST_operation_models_created [OF this] none
  show "or_formModelId (hd (operationModels_tbl s')) = None"
    and "om_formModelId doc = None" and "om_formModel doc = None"
    by simp_all
next
  assume "co_name payload \<noteq> []
        \<and> (co_storageModelId payload = Null \<or> co_storageModelId payload = Value [])
        \<and> (co_formModelId payload = Null \<or> co_formModelId payload = Value [])"
  then show "\<exists>doc s'. POST_operation_models s now payload = (Response 201 (Inr doc), s')"
    by (intro POST_operation_models_without_references or_undefined_empty) simp_all
qed

theorem empty_reference_is_absent_witness:
  "co_name sample_operation_request \<noteq> []
   \<and> co_storageModelId sample_operation_request = Value []
   \<and> co_formModelId sample_operation_request = Null
   \<and> POST_operation_models empty_store 0 sample_operation_request
       = POST_operation_models empty_store 0
           (sample_operation_request\<lparr> co_storageModelId := Undefined \<rparr>)
   \<and> status (fst (POST_operation_models empty_store 0 sample_operation_request)) = 201
   \<and> or_storageModelId
        (hd (operationModels_tbl (snd (POST_operation_models empty_store 0
                                          sample_operation_request)))) = None
   \<and> or_formModelId
        (hd (operationModels_tbl (snd (POST_operation_models empty_store 0
                                          sample_operation_request)))) = None"
proof -
  have given: "co_name sample_operation_request \<noteq> []"
    "co_storageModelId sample_operation_request = Value []"
    "co_formModelId sample_operation_request = Null"
    by (simp_all add: sample_operation_request_def)
  note main = empty_reference_is_absent [of sample_operation_request empty_store 0]
  from main [THEN conjunct2, THEN conjunct2] given
  have "\<exists>doc s'. POST_operation_models empty_store 0 sample_operation_request
                   = (Response 201 (Inr doc), s')"
    by simp
  then obtain doc s'
    where post: "POST_operation_models empty_store 0 sample_operation_request
                   = (Response 201 (Inr doc), s')"
    by blast
  from main [THEN conjunct1] given
  have same: "POST_operation_models empty_store 0 sample_operation_request
          = POST_operation_models empty_store 0
              (sample_operation_request\<lparr> co_storageModelId := Undefined \<rparr>)"
    and model: "\<forall>doc s'. POST_operation_models empty_store 0 sample_operation_request
                   = (Response 201 (Inr doc), s') \<longrightarrow>
                 or_storageModelId (hd (operationModels_tbl s')) = None
                 \<and> om_storageModelId doc = None"
    by simp_all
  from main [THEN conjunct2, THEN conjunct1] given
  have form: "\<forall>doc s'. POST_operation_models empty_store 0 sample_operation_request
                   = (Response 201 (Inr doc), s') \<longrightarrow>
                 or_formModelId (hd (operationModels_tbl s')) = None
                 \<and> om_formModelId doc = None \<and> om_formModel doc = None"
    by simp
  from model post have "or_storageModelId (hd (operationModels_tbl s')) = None"
    by blast
  moreover from form post have "or_formModelId (hd (operationModels_tbl s')) = None"
    by blast
  ultimately show ?thesis
    using given same [symmetric] by (simp add: post)
qed











end
